theory Spec2Isabelle
  imports Main
begin

section \<open>Python strings and the Unicode character database\<close>

text \<open>
  A Python \<open>str\<close> is a sequence of Unicode code points, so a string is a list of
  integers here (the code points) and its length counts code points. \<open>ustr\<close> turns an ASCII
  literal into such a list; code points outside ASCII are written as numbers.
\<close>

type_synonym pystr = "int list"

definition ustr :: "string \<Rightarrow> pystr" where
  "ustr s = map of_char s"

text \<open>
  The methods \<open>str.strip\<close>, \<open>str.lower\<close>, \<open>str.upper\<close> and the classes
  \<open>\s\<close>, \<open>\b\<close> and the flag \<open>re.I\<close> of the \<open>re\<close> module read the Unicode
  character database of the interpreter. The database is no part of the repository, so
  the functions below take it as their first argument:
  \<^item> \<open>isspace\<close>: the white-space property (\<open>str.isspace\<close>, \<open>\s\<close>, \<open>str.strip()\<close>);
  \<^item> \<open>isalnum\<close>: the alphanumeric property (\<open>\w\<close> is this or the underscore);
  \<^item> \<open>tolower\<close>: the simple lower-case mapping of one code point (\<open>re.I\<close>);
  \<^item> \<open>str_lower\<close>, \<open>str_upper\<close>: \<open>str.lower\<close> and \<open>str.upper\<close> on whole strings.
\<close>

record ucd =
  isspace :: "int \<Rightarrow> bool"
  isalnum :: "int \<Rightarrow> bool"
  tolower :: "int \<Rightarrow> int"
  str_lower :: "pystr \<Rightarrow> pystr"
  str_upper :: "pystr \<Rightarrow> pystr"

text \<open>
  \<open>ucd_basic\<close> is the database on Basic Latin (the code points below 128), where it is
  exact. Of the other code points it records the white-space property only: none of them
  is alphanumeric in it and the case mappings leave them alone. It is used to run the
  functions on concrete titles.
\<close>

definition basic_isspace :: "int \<Rightarrow> bool" where
  "basic_isspace c \<longleftrightarrow>
     (9 \<le> c \<and> c \<le> 13) \<or> (28 \<le> c \<and> c \<le> 32) \<or> c = 0x85 \<or> c = 0xA0 \<or> c = 0x1680
     \<or> (0x2000 \<le> c \<and> c \<le> 0x200A) \<or> c = 0x2028 \<or> c = 0x2029 \<or> c = 0x202F
     \<or> c = 0x205F \<or> c = 0x3000"

definition basic_isalnum :: "int \<Rightarrow> bool" where
  "basic_isalnum c \<longleftrightarrow> (48 \<le> c \<and> c \<le> 57) \<or> (65 \<le> c \<and> c \<le> 90) \<or> (97 \<le> c \<and> c \<le> 122)"

definition basic_tolower :: "int \<Rightarrow> int" where
  "basic_tolower c = (if 65 \<le> c \<and> c \<le> 90 then c + 32 else c)"

definition basic_toupper :: "int \<Rightarrow> int" where
  "basic_toupper c = (if 97 \<le> c \<and> c \<le> 122 then c - 32 else c)"

definition ucd_basic :: ucd where
  "ucd_basic = \<lparr> isspace = basic_isspace, isalnum = basic_isalnum, tolower = basic_tolower,
                 str_lower = map basic_tolower, str_upper = map basic_toupper \<rparr>"

subsection \<open>String methods\<close>

text \<open>\<open>s.strip()\<close> and \<open>s.strip(chars)\<close>: the characters are removed at both ends.\<close>

definition strip_where :: "(int \<Rightarrow> bool) \<Rightarrow> pystr \<Rightarrow> pystr" where
  "strip_where P s = rev (dropWhile P (rev (dropWhile P s)))"

definition strip :: "ucd \<Rightarrow> pystr \<Rightarrow> pystr" where
  "strip U s = strip_where (isspace U) s"

definition strip_chars :: "pystr \<Rightarrow> pystr \<Rightarrow> pystr" where
  "strip_chars chars s = strip_where (\<lambda>c. c \<in> set chars) s"

text \<open>Python orders strings lexicographically by code point: \<open>str_le a b\<close> is \<open>a <= b\<close>.\<close>

fun str_le :: "pystr \<Rightarrow> pystr \<Rightarrow> bool" where
  "str_le [] b = True"
| "str_le (x # xs) [] = False"
| "str_le (x # xs) (y # ys) = (x < y \<or> (x = y \<and> str_le xs ys))"

text \<open>\<open>needle in s\<close> for strings: \<open>needle\<close> occurs in \<open>s\<close> as a substring.\<close>

fun str_contains :: "pystr \<Rightarrow> pystr \<Rightarrow> bool" where
  "str_contains needle [] = (needle = [])"
| "str_contains needle (c # cs) =
     (take (length needle) (c # cs) = needle \<or> str_contains needle cs)"

text \<open>\<open>s.replace(old, new)\<close> for a one-character \<open>old\<close>.\<close>

definition replace_char :: "int \<Rightarrow> pystr \<Rightarrow> pystr \<Rightarrow> pystr" where
  "replace_char old new s = concat (map (\<lambda>c. if c = old then new else [c]) s)"

section \<open>catalog/normalize.py\<close>

subsection \<open>The regular expressions\<close>

text \<open>
  \<open>_MARK_RX.sub("", s)\<close>, the pattern being a class of three characters: the trade mark sign
  U+2122, the registered sign U+00AE and the copyright sign U+00A9 are deleted.
\<close>

definition MARK_RX_sub :: "pystr \<Rightarrow> pystr" where
  "MARK_RX_sub s = filter (\<lambda>c. c \<noteq> 0x2122 \<and> c \<noteq> 0xAE \<and> c \<noteq> 0xA9) s"

text \<open>
  \<open>re.sub(r"\s{2,}", " ", t)\<close>: every maximal run of two or more white-space characters
  becomes one space; a single white-space character stays as it is.
\<close>

function collapse_ws :: "ucd \<Rightarrow> pystr \<Rightarrow> pystr" where
  "collapse_ws U [] = []"
| "collapse_ws U (c # cs) =
     (if isspace U c \<and> cs \<noteq> [] \<and> isspace U (hd cs)
      then 32 # collapse_ws U (dropWhile (isspace U) cs)
      else c # collapse_ws U cs)"
  by pat_completeness auto
termination
  by (relation "measure (\<lambda>(U, s). length s)")
     (auto simp: less_Suc_eq_le length_dropWhile_le)

text \<open>
  A literal of a pattern compiled with \<open>re.I\<close>: the pattern character \<open>p\<close> (lower case)
  matches \<open>c\<close> when the simple lower-case mapping of \<open>c\<close> is \<open>p\<close>, or is one of the extra
  lower-case forms the \<open>re\<close> module pairs with \<open>p\<close> (dotless i, U+0131, with \<open>i\<close>; long s,
  U+017F, with \<open>s\<close>).
\<close>

definition ci_eq :: "ucd \<Rightarrow> int \<Rightarrow> int \<Rightarrow> bool" where
  "ci_eq U p c \<longleftrightarrow>
     tolower U c = p \<or> (p = 0x69 \<and> tolower U c = 0x131) \<or> (p = 0x73 \<and> tolower U c = 0x17F)"

text \<open>\<open>lit_ci U w s\<close>: the literal \<open>w\<close> matches at the start of \<open>s\<close>, ignoring case.\<close>

fun lit_ci :: "ucd \<Rightarrow> pystr \<Rightarrow> pystr \<Rightarrow> bool" where
  "lit_ci U [] s = True"
| "lit_ci U (p # ps) [] = False"
| "lit_ci U (p # ps) (c # cs) = (ci_eq U p c \<and> lit_ci U ps cs)"

text \<open>
  \<open>\b\<close> between two neighbours (\<open>None\<close> at either end of the string): exactly one of them
  is a word character, that is alphanumeric or the underscore.
\<close>

definition isword :: "ucd \<Rightarrow> int option \<Rightarrow> bool" where
  "isword U x = (case x of None \<Rightarrow> False | Some c \<Rightarrow> isalnum U c \<or> c = 0x5F)"

definition word_boundary :: "ucd \<Rightarrow> int option \<Rightarrow> int option \<Rightarrow> bool" where
  "word_boundary U prev nxt \<longleftrightarrow> isword U prev \<noteq> isword U nxt"

text \<open>
  The alternatives of \<open>_EDITION_RX\<close> in the order of the pattern; \<open>director'?s cut\<close> is
  the alternative with the apostrophe (tried first, the \<open>?\<close> being greedy) and the one without.
\<close>

definition edition_words :: "pystr list" where
  "edition_words =
     [ustr ''deluxe'', ustr ''definitive'', ustr ''gold'', ustr ''ultimate'', ustr ''goty'',
      ustr ''complete'', ustr ''remastered'', ustr ''hd'', ustr ''bundle'', ustr ''collection'',
      ustr ''director'' @ [0x27] @ ustr ''s cut'', ustr ''directors cut'', ustr ''edition'']"

definition next_char :: "pystr \<Rightarrow> int option" where
  "next_char s = (case s of [] \<Rightarrow> None | c # _ \<Rightarrow> Some c)"

text \<open>
  \<open>edition_match U prev s\<close>: the length of the match of \<open>_EDITION_RX\<close> that starts at
  the head of \<open>s\<close>, where \<open>prev\<close> is the character in front of \<open>s\<close> in the subject.
\<close>

definition word_matches :: "ucd \<Rightarrow> pystr \<Rightarrow> pystr \<Rightarrow> bool" where
  "word_matches U s w \<longleftrightarrow>
     lit_ci U w s \<and>
     word_boundary U (next_char (rev (take (length w) s))) (next_char (drop (length w) s))"

definition edition_match :: "ucd \<Rightarrow> int option \<Rightarrow> pystr \<Rightarrow> nat option" where
  "edition_match U prev s =
     (if word_boundary U prev (next_char s)
      then map_option length (find (word_matches U s) edition_words)
      else None)"

text \<open>
  \<open>_EDITION_RX.sub("", t)\<close>: the matches are deleted, scanning from the left; the scan
  goes on behind a match, and \<open>\b\<close> there looks at the last character of the match. A
  match is never empty, the test for it serves the termination proof only.
\<close>

function EDITION_RX_scan :: "ucd \<Rightarrow> int option \<Rightarrow> pystr \<Rightarrow> pystr" where
  "EDITION_RX_scan U prev [] = []"
| "EDITION_RX_scan U prev (c # cs) =
     (case edition_match U prev (c # cs) of
        Some n \<Rightarrow>
          (if n = 0 then c # EDITION_RX_scan U (Some c) cs
           else EDITION_RX_scan U (next_char (rev (take n (c # cs)))) (drop n (c # cs)))
      | None \<Rightarrow> c # EDITION_RX_scan U (Some c) cs)"
  by pat_completeness auto
termination
  by (relation "measure (\<lambda>(U, b, s). length s)") auto

definition EDITION_RX_sub :: "ucd \<Rightarrow> pystr \<Rightarrow> pystr" where
  "EDITION_RX_sub U t = EDITION_RX_scan U None t"

subsection \<open>The functions\<close>

definition clean_title :: "ucd \<Rightarrow> pystr \<Rightarrow> pystr" where
  "clean_title U name =
     (let t = strip U (MARK_RX_sub name);
          t = collapse_ws U t
      in t)"

text \<open>The four characters of the final \<open>strip\<close>: space, hyphen-minus, en dash, em dash.\<close>

definition edition_strip_chars :: pystr where
  "edition_strip_chars = [0x20, 0x2D, 0x2013, 0x2014]"

definition strip_edition_noise :: "ucd \<Rightarrow> pystr \<Rightarrow> pystr" where
  "strip_edition_noise U name =
     (let t = clean_title U name;
          t = EDITION_RX_sub U t;
          t = strip_chars edition_strip_chars (collapse_ws U t)
      in if t \<noteq> [] then t else clean_title U name)"

definition letter_bucket :: "ucd \<Rightarrow> pystr \<Rightarrow> pystr" where
  "letter_bucket U name =
     (let ch = str_lower U (take 1 (strip U name))
      in if str_le (ustr ''a'') ch \<and> str_le ch (ustr ''z'') then ch else ustr ''_'')"


subsection \<open>Floats and \<open>price_to_string\<close>\<close>

text \<open>
  A Python \<open>float\<close> is a binary64 value: \<open>Finite neg m e\<close> is \<open>m * 2 ^ e\<close> with the sign
  \<open>neg\<close> (so there are two zeros, as in Python), next to the infinities and NaN. Values
  are kept exact; nothing below compares two floats.
\<close>

datatype pyfloat = Finite bool int int | Infinity bool | NaN

text \<open>\<open>round_half_even q d\<close>: the integer nearest to \<open>q / d\<close> for \<open>d > 0\<close>, ties to even.\<close>

definition round_half_even :: "int \<Rightarrow> int \<Rightarrow> int" where
  "round_half_even q d =
     (let fl = q div d; r = q mod d
      in if 2 * r > d \<or> (2 * r = d \<and> odd fl) then fl + 1 else fl)"

text \<open>The decimal digits of a non-negative integer.\<close>

function dec_digits :: "int \<Rightarrow> pystr" where
  "dec_digits n = (if n < 10 then [48 + n] else dec_digits (n div 10) @ [48 + n mod 10])"
  by pat_completeness auto
termination
  by (relation "measure nat") auto

text \<open>
  \<open>f"{amount:0.2f}"\<close>: fixed-point notation with two decimals. The conversion is exact:
  the value is rounded to the nearest multiple of 0.01, ties to even, and the sign bit
  is printed, also with a zero.
\<close>

definition format_2f :: "pyfloat \<Rightarrow> pystr" where
  "format_2f x =
     (case x of
        NaN \<Rightarrow> ustr ''nan''
      | Infinity neg \<Rightarrow> (if neg then ustr ''-inf'' else ustr ''inf'')
      | Finite neg m e \<Rightarrow>
          (let n = (if 0 \<le> e then m * 2 ^ nat e * 100
                    else round_half_even (m * 100) (2 ^ nat (- e)))
           in (if neg then ustr ''-'' else []) @ dec_digits (n div 100) @ ustr ''.''
              @ [48 + (n mod 100) div 10, 48 + n mod 10]))"

definition price_to_string :: "ucd \<Rightarrow> pyfloat option \<Rightarrow> pystr option \<Rightarrow> pystr option \<Rightarrow> pystr" where
  "price_to_string U amount currency flags =
     (if flags \<noteq> None \<and> the flags \<noteq> [] then the flags
      else if amount = None \<or> currency = None then ustr ''Unavailable''
      else
        (let symbol = (if str_upper U (the currency) = ustr ''USD'' then ustr ''$''
                       else str_upper U (the currency) @ ustr '' '')
         in symbol @ format_2f (the amount)))"

section \<open>catalog/dedupe.py: the canonical key\<close>

text \<open>
  \<open>re.sub(r"[^a-z0-9]+", "", s)\<close>: every run of characters other than \<open>a\<close> to \<open>z\<close> and
  \<open>0\<close> to \<open>9\<close> is deleted.
\<close>

definition is_az09 :: "int \<Rightarrow> bool" where
  "is_az09 c \<longleftrightarrow> (97 \<le> c \<and> c \<le> 122) \<or> (48 \<le> c \<and> c \<le> 57)"

function non_az09_sub :: "pystr \<Rightarrow> pystr" where
  "non_az09_sub [] = []"
| "non_az09_sub (c # cs) =
     (if is_az09 c then c # non_az09_sub cs
      else non_az09_sub (dropWhile (\<lambda>d. \<not> is_az09 d) cs))"
  by pat_completeness auto
termination
  by (relation "measure length") (auto simp: less_Suc_eq_le length_dropWhile_le)

definition canonical_key :: "ucd \<Rightarrow> pystr \<Rightarrow> pystr" where
  "canonical_key U name =
     (let base = strip_edition_noise U name
      in non_az09_sub (str_lower U base))"

section \<open>Python values\<close>

text \<open>
  What \<open>json.loads\<close> returns and what the adapter passes around: \<open>None\<close>, booleans,
  integers, floats, strings, lists and dictionaries. A dictionary is the list of its
  items in insertion order, each key once.
\<close>

datatype pyval =
    PNone
  | PBool bool
  | PInt int
  | PFloat pyfloat
  | PStr pystr
  | PList "pyval list"
  | PDict "(pystr \<times> pyval) list"

text \<open>The exceptions that the modelled code can raise.\<close>

datatype pyerror = AttributeError | TypeError | ValidationError | FetchError | DecodeError

text \<open>Truth value testing, \<open>a or b\<close>, \<open>d.get(k)\<close> and \<open>k in d\<close>.\<close>

fun truthy :: "pyval \<Rightarrow> bool" where
  "truthy PNone = False"
| "truthy (PBool b) = b"
| "truthy (PInt i) = (i \<noteq> 0)"
| "truthy (PFloat (Finite neg m e)) = (m \<noteq> 0)"
| "truthy (PFloat x) = True"
| "truthy (PStr s) = (s \<noteq> [])"
| "truthy (PList xs) = (xs \<noteq> [])"
| "truthy (PDict kvs) = (kvs \<noteq> [])"

definition py_or :: "pyval \<Rightarrow> pyval \<Rightarrow> pyval" where
  "py_or a b = (if truthy a then a else b)"

definition dict_get :: "(pystr \<times> pyval) list \<Rightarrow> pystr \<Rightarrow> pyval" where
  "dict_get d k = (case map_of d k of None \<Rightarrow> PNone | Some v \<Rightarrow> v)"

definition dict_has :: "(pystr \<times> pyval) list \<Rightarrow> pystr \<Rightarrow> bool" where
  "dict_has d k \<longleftrightarrow> map_of d k \<noteq> None"

section \<open>catalog/models.py\<close>

text \<open>
  The validator \<open>_platforms_clean\<close>, which \<open>LetterItem\<close> and \<open>GameRecord\<close> both define
  with the same body. It runs after the type validation of the field, so its argument
  is a list of strings and \<open>str(p)\<close> is \<open>p\<close>. \<open>platforms_loop\<close> is the \<open>for\<close> loop with
  its two variables \<open>seen\<close> and \<open>out\<close>.
\<close>

fun platforms_loop :: "ucd \<Rightarrow> pystr set \<Rightarrow> pystr list \<Rightarrow> pystr list \<Rightarrow> pystr list" where
  "platforms_loop U seen out [] = out"
| "platforms_loop U seen out (p # v) =
     (let p = strip U p
      in if p \<noteq> [] \<and> str_lower U p \<notin> seen
         then platforms_loop U (insert (str_lower U p) seen) (out @ [p]) v
         else platforms_loop U seen out v)"

definition LetterItem_platforms_clean :: "ucd \<Rightarrow> pystr list \<Rightarrow> pystr list" where
  "LetterItem_platforms_clean U v = platforms_loop U {} [] v"

definition GameRecord_platforms_clean :: "ucd \<Rightarrow> pystr list \<Rightarrow> pystr list" where
  "GameRecord_platforms_clean U v = platforms_loop U {} [] v"

text \<open>The validators \<open>_price_nonempty\<close> and \<open>_rating_lower\<close>, the same in both classes.\<close>

definition price_nonempty :: "ucd \<Rightarrow> pystr \<Rightarrow> pystr" where
  "price_nonempty U v = (let v = strip U v in if v \<noteq> [] then v else ustr ''Unavailable'')"

definition rating_lower :: "ucd \<Rightarrow> pystr option \<Rightarrow> pystr option" where
  "rating_lower U v = map_option (str_lower U) v"

text \<open>The values of the literal types \<open>Rating\<close> and \<open>store\<close>.\<close>

definition Rating :: "pystr list" where
  "Rating = [ustr ''everyone'', ustr ''everyone 10+'', ustr ''rating pending'', ustr ''teen'',
             ustr ''mature 17+'', ustr ''none'']"

definition stores :: "pystr list" where
  "stores = [ustr ''steam'', ustr ''psn'', ustr ''xbox'', ustr ''nintendo'']"

record LetterItem =
  li_name :: pystr
  li_type :: "pystr option"
  li_price :: pystr
  li_image :: pystr
  li_href :: pystr
  li_uuid :: "pystr option"
  li_platforms :: "pystr list"
  li_rating :: "pystr option"

record GameRecord =
  store :: pystr
  name :: pystr
  price :: pystr
  image :: pystr
  href :: pystr
  uuid :: "pystr option"
  platforms :: "pystr list"
  rating :: "pystr option"
  type :: "pystr option"
  extra :: "(pystr \<times> pyval) list"

section \<open>catalog/dedupe.py: clustering\<close>

text \<open>
  \<open>buckets.setdefault(k, []).append(r)\<close> on a dictionary kept as the list of its items:
  the record goes to the end of the bucket of \<open>k\<close>, and a new key goes to the end of the
  dictionary.
\<close>

fun setdefault_append ::
  "(pystr \<times> GameRecord list) list \<Rightarrow> pystr \<Rightarrow> GameRecord \<Rightarrow> (pystr \<times> GameRecord list) list" where
  "setdefault_append [] k r = [(k, [r])]"
| "setdefault_append ((k', rs) # buckets) k r =
     (if k' = k then (k', rs @ [r]) # buckets else (k', rs) # setdefault_append buckets k r)"

definition cluster :: "ucd \<Rightarrow> GameRecord list \<Rightarrow> (pystr \<times> GameRecord list) list" where
  "cluster U records =
     foldl (\<lambda>buckets r. setdefault_append buckets (canonical_key U (name r)) r) [] records"

section \<open>Statements of the specification, in its own words\<close>

text \<open>
  The letter bucket as the specification words it: the lower-cased first character of the
  name when that is one of \<open>a\<close> to \<open>z\<close>, the underscore otherwise.
\<close>

definition letter_bucket_spec :: "ucd \<Rightarrow> pystr \<Rightarrow> pystr" where
  "letter_bucket_spec U nm =
     (let ch = str_lower U (take 1 nm)
      in if (case ch of [c] \<Rightarrow> 97 \<le> c \<and> c \<le> 122 | _ \<Rightarrow> False) then ch else ustr ''_'')"

text \<open>
  The entries of a list that are the first of their kind, in the order of the list: the
  entry at index \<open>i\<close> stays when no entry in front of it has the same key.
\<close>

definition first_occurrences :: "('a \<Rightarrow> 'b) \<Rightarrow> 'a list \<Rightarrow> 'a list" where
  "first_occurrences key xs =
     concat (map (\<lambda>i. if key (xs ! i) \<in> key ` set (take i xs) then [] else [xs ! i])
                 [0..<length xs])"

section \<open>Example values\<close>

text \<open>
  The floats \<open>19.99\<close> and \<open>29.99\<close>: the binary64 values nearest to the decimal numbers
  (\<open>0x1.3fd70a3d70a3dp+4\<close> and \<open>0x1.dfd70a3d70a3dp+4\<close>).
\<close>

definition float_19_99 :: pyfloat where
  "float_19_99 = Finite False 5626684784446013 (- 48)"

definition float_29_99 :: pyfloat where
  "float_29_99 = Finite False 8441434551552573 (- 48)"

section \<open>The interpreter and the libraries\<close>

text \<open>
  What the adapter calls outside the repository is a parameter as well:
  \<^item> \<open>unicode\<close>: the character database;
  \<^item> \<open>json_loads\<close>: \<open>json.loads\<close>, \<open>None\<close> when it raises;
  \<^item> \<open>float_of_str\<close>, \<open>float_of_int\<close>: \<open>float(x)\<close> for a string and for an integer, \<open>None\<close>
    when it raises (\<open>ValueError\<close>, \<open>OverflowError\<close>);
  \<^item> \<open>str_of\<close>: \<open>str(x)\<close> for a value that is not a string;
  \<^item> \<open>http_url\<close>: the validation of a pydantic \<open>HttpUrl\<close> field, which gives the URL in
    normal form or fails (\<open>None\<close>).
\<close>

record runtime =
  unicode :: ucd
  json_loads :: "pystr \<Rightarrow> pyval option"
  float_of_str :: "pystr \<Rightarrow> pyfloat option"
  float_of_int :: "int \<Rightarrow> pyfloat option"
  str_of :: "pyval \<Rightarrow> pystr"
  http_url :: "pystr \<Rightarrow> pystr option"

definition py_str :: "runtime \<Rightarrow> pyval \<Rightarrow> pystr" where
  "py_str R v = (case v of PStr s \<Rightarrow> s | _ \<Rightarrow> str_of R v)"

text \<open>\<open>float(v)\<close>; \<open>None\<close> stands for any exception, both call sites catch them all.\<close>

definition py_float :: "runtime \<Rightarrow> pyval \<Rightarrow> pyfloat option" where
  "py_float R v =
     (case v of
        PStr s \<Rightarrow> float_of_str R s
      | PInt i \<Rightarrow> float_of_int R i
      | PFloat x \<Rightarrow> Some x
      | PBool b \<Rightarrow> Some (Finite False (if b then 1 else 0) 0)
      | _ \<Rightarrow> None)"

text \<open>Iterating over a value, as a \<open>for\<close> loop or a comprehension does.\<close>

definition py_iter :: "pyval \<Rightarrow> pyerror + pyval list" where
  "py_iter v =
     (case v of
        PList xs \<Rightarrow> Inr xs
      | PStr s \<Rightarrow> Inr (map (\<lambda>c. PStr [c]) s)
      | PDict kvs \<Rightarrow> Inr (map (\<lambda>kv. PStr (fst kv)) kvs)
      | _ \<Rightarrow> Inl TypeError)"

definition dict_get_default :: "(pystr \<times> pyval) list \<Rightarrow> pystr \<Rightarrow> pyval \<Rightarrow> pyval" where
  "dict_get_default d k dflt = (case map_of d k of None \<Rightarrow> dflt | Some v \<Rightarrow> v)"

text \<open>Sequencing: an exception ends the computation.\<close>

definition ebind :: "'e + 'a \<Rightarrow> ('a \<Rightarrow> 'e + 'b) \<Rightarrow> 'e + 'b" where
  "ebind m f = (case m of Inl e \<Rightarrow> Inl e | Inr x \<Rightarrow> f x)"

text \<open>
  \<open>for x in xs: out.extend(f(x))\<close>: the results in order, or the first exception.
\<close>

fun eseq :: "('a \<Rightarrow> 'e + 'b list) \<Rightarrow> 'a list \<Rightarrow> 'e + 'b list" where
  "eseq f [] = Inr []"
| "eseq f (x # xs) = ebind (f x) (\<lambda>a. ebind (eseq f xs) (\<lambda>b. Inr (a @ b)))"

definition opt_list :: "'a option \<Rightarrow> 'a list" where
  "opt_list r = (case r of None \<Rightarrow> [] | Some x \<Rightarrow> [x])"

section \<open>catalog/models.py: construction\<close>

text \<open>
  Constructing a \<open>GameRecord\<close> validates the fields and runs the validators; a failed
  validation raises \<open>ValidationError\<close>. The arguments are the keyword arguments in the
  order of the fields, \<open>extra\<close> taking its default.
\<close>

definition GameRecord_new ::
  "runtime \<Rightarrow> pystr \<Rightarrow> pystr \<Rightarrow> pystr \<Rightarrow> pystr \<Rightarrow> pystr \<Rightarrow> pystr option \<Rightarrow> pystr list
     \<Rightarrow> pystr option \<Rightarrow> pystr option \<Rightarrow> pyerror + GameRecord" where
  "GameRecord_new R st nm pr img hr uid plats rat ty =
     (if st \<notin> set stores then Inl ValidationError
      else case http_url R img of
        None \<Rightarrow> Inl ValidationError
      | Some img' \<Rightarrow>
          (case http_url R hr of
             None \<Rightarrow> Inl ValidationError
           | Some hr' \<Rightarrow>
               if rat \<noteq> None \<and> the rat \<notin> set Rating then Inl ValidationError
               else Inr \<lparr> store = st, name = nm, price = price_nonempty (unicode R) pr,
                          image = img', href = hr', uuid = uid,
                          platforms = GameRecord_platforms_clean (unicode R) plats,
                          rating = rating_lower (unicode R) rat, type = ty, extra = [] \<rparr>))"

definition LetterItem_new ::
  "runtime \<Rightarrow> pystr \<Rightarrow> pystr option \<Rightarrow> pystr \<Rightarrow> pystr \<Rightarrow> pystr \<Rightarrow> pystr option \<Rightarrow> pystr list
     \<Rightarrow> pystr option \<Rightarrow> pyerror + LetterItem" where
  "LetterItem_new R nm ty pr img hr uid plats rat =
     (case http_url R img of
        None \<Rightarrow> Inl ValidationError
      | Some img' \<Rightarrow>
          (case http_url R hr of
             None \<Rightarrow> Inl ValidationError
           | Some hr' \<Rightarrow>
               if rat \<noteq> None \<and> the rat \<notin> set Rating then Inl ValidationError
               else Inr \<lparr> li_name = nm, li_type = ty, li_price = price_nonempty (unicode R) pr,
                          li_image = img', li_href = hr', li_uuid = uid,
                          li_platforms = LetterItem_platforms_clean (unicode R) plats,
                          li_rating = rating_lower (unicode R) rat \<rparr>))"

section \<open>catalog/adapters/nintendo.py\<close>

text \<open>\<open>AdapterConfig\<close> with its fields \<open>country\<close> and \<open>locale\<close>.\<close>

record AdapterConfig =
  cfg_country :: pystr
  cfg_locale :: pystr

definition nintendo_placeholder :: pystr where
  "nintendo_placeholder =
     ustr ''https://www.nintendo.com/etc.clientlibs/ncom/clientlibs/clientlib-ncom/resources/img/nintendo_red.svg''"

subsection \<open>The two script patterns\<close>

text \<open>
  \<open>_JSONLD_RE\<close> and \<open>_NEXT_RE\<close> have the same shape,
  \<^verbatim>\<open><script[^>]+KEY=["']VALUE["'][^>]*>(.*?)</script>\<close> with the flags \<open>re.S | re.I\<close>; the
  matcher follows the pattern from left to right. Under \<open>re.I\<close> a class is tested on
  the lower-cased character.
\<close>

definition not_gt :: "ucd \<Rightarrow> int \<Rightarrow> bool" where
  "not_gt U c \<longleftrightarrow> tolower U c \<noteq> 0x3E"

definition is_quote :: "ucd \<Rightarrow> int \<Rightarrow> bool" where
  "is_quote U c \<longleftrightarrow> tolower U c = 0x22 \<or> tolower U c = 0x27"

text \<open>\<open>KEY=["']VALUE["']\<close> at the head of \<open>s\<close>: what follows it.\<close>

definition attr_match :: "ucd \<Rightarrow> pystr \<Rightarrow> pystr \<Rightarrow> pystr \<Rightarrow> pystr option" where
  "attr_match U key val s =
     (if lit_ci U key s
      then (case drop (length key) s of
              [] \<Rightarrow> None
            | q1 # s1 \<Rightarrow>
                if is_quote U q1 \<and> lit_ci U val s1
                then (case drop (length val) s1 of
                        [] \<Rightarrow> None
                      | q2 # s2 \<Rightarrow> if is_quote U q2 then Some s2 else None)
                else None)
      else None)"

text \<open>
  \<open>(.*?)LIT\<close>: the shortest text, of any characters, after which the literal matches;
  the result is that text and what follows the literal.
\<close>

fun lazy_until :: "ucd \<Rightarrow> pystr \<Rightarrow> pystr \<Rightarrow> (pystr \<times> pystr) option" where
  "lazy_until U lit [] = (if lit_ci U lit [] then Some ([], []) else None)"
| "lazy_until U lit (c # cs) =
     (if lit_ci U lit (c # cs) then Some ([], drop (length lit) (c # cs))
      else map_option (\<lambda>gr. (c # fst gr, snd gr)) (lazy_until U lit cs))"

text \<open>\<open>[^>]*>(.*?)</script>\<close> at the head of \<open>s\<close>: group 1 and the rest.\<close>

definition tag_rest :: "ucd \<Rightarrow> pystr \<Rightarrow> (pystr \<times> pystr) option" where
  "tag_rest U s =
     (case dropWhile (not_gt U) s of
        [] \<Rightarrow> None
      | c # body \<Rightarrow> lazy_until U (ustr ''</script>'') body)"

text \<open>
  \<open>[^>]+\<close> is greedy: it first takes all \<open>n\<close> characters up to the next \<open>>\<close>, and
  gives them back one at a time, down to one, until the rest of the pattern matches.
\<close>

fun attr_search :: "ucd \<Rightarrow> pystr \<Rightarrow> pystr \<Rightarrow> nat \<Rightarrow> pystr \<Rightarrow> (pystr \<times> pystr) option" where
  "attr_search U key val 0 s = None"
| "attr_search U key val (Suc n) s =
     (case attr_match U key val (drop (Suc n) s) of
        Some s2 \<Rightarrow>
          (case tag_rest U s2 of
             Some r \<Rightarrow> Some r
           | None \<Rightarrow> attr_search U key val n s)
      | None \<Rightarrow> attr_search U key val n s)"

text \<open>The whole pattern at the head of \<open>s\<close>: group 1 and what follows the match.\<close>

definition script_match :: "ucd \<Rightarrow> pystr \<Rightarrow> pystr \<Rightarrow> pystr \<Rightarrow> (pystr \<times> pystr) option" where
  "script_match U key val s =
     (if lit_ci U (ustr ''<script'') s
      then (let s1 = drop 7 s
            in attr_search U key val (length (takeWhile (not_gt U) s1)) s1)
      else None)"

text \<open>
  \<open>finditer\<close>: the matches from left to right, none overlapping another; \<open>skip\<close> counts
  the characters of the last match that are still to be passed.
\<close>

fun finditer_scan :: "ucd \<Rightarrow> pystr \<Rightarrow> pystr \<Rightarrow> nat \<Rightarrow> pystr \<Rightarrow> pystr list" where
  "finditer_scan U key val skip [] = []"
| "finditer_scan U key val skip (c # cs) =
     (if 0 < skip then finditer_scan U key val (skip - 1) cs
      else case script_match U key val (c # cs) of
        Some gr \<Rightarrow> fst gr # finditer_scan U key val (length cs - length (snd gr)) cs
      | None \<Rightarrow> finditer_scan U key val 0 cs)"

text \<open>\<open>search\<close>: group 1 of the leftmost match.\<close>

fun search_scan :: "ucd \<Rightarrow> pystr \<Rightarrow> pystr \<Rightarrow> pystr \<Rightarrow> pystr option" where
  "search_scan U key val [] = None"
| "search_scan U key val (c # cs) =
     (case script_match U key val (c # cs) of
        Some gr \<Rightarrow> Some (fst gr)
      | None \<Rightarrow> search_scan U key val cs)"

definition JSONLD_RE_finditer :: "ucd \<Rightarrow> pystr \<Rightarrow> pystr list" where
  "JSONLD_RE_finditer U html =
     finditer_scan U (ustr ''type='') (ustr ''application/ld+json'') 0 html"

definition NEXT_RE_search :: "ucd \<Rightarrow> pystr \<Rightarrow> pystr option" where
  "NEXT_RE_search U html = search_scan U (ustr ''id='') (ustr ''__next_data__'') html"

subsection \<open>Normalising one item\<close>

text \<open>
  \<open>clean_title(v)\<close> for a value of any type: \<open>v or ""\<close> is a string or the call to
  \<open>_MARK_RX.sub\<close> raises \<open>TypeError\<close>.
\<close>

definition clean_title_any :: "ucd \<Rightarrow> pyval \<Rightarrow> pyerror + pystr" where
  "clean_title_any U v =
     (if truthy v
      then (case v of PStr s \<Rightarrow> Inr (clean_title U s) | _ \<Rightarrow> Inl TypeError)
      else Inr (clean_title U []))"

text \<open>
  \<open>price_to_string(amount, currency)\<close> for a currency of any type: \<open>currency.upper()\<close>
  raises \<open>AttributeError\<close> on a value that is neither \<open>None\<close> nor a string, once the
  amount is not \<open>None\<close>.
\<close>

definition call_price_to_string :: "ucd \<Rightarrow> pyfloat option \<Rightarrow> pyval \<Rightarrow> pyerror + pystr" where
  "call_price_to_string U amount currency =
     (case currency of
        PNone \<Rightarrow> Inr (price_to_string U amount None None)
      | PStr s \<Rightarrow> Inr (price_to_string U amount (Some s) None)
      | _ \<Rightarrow> if amount = None then Inr (ustr ''Unavailable'') else Inl AttributeError)"

text \<open>
  The loop of \<open>_normalize_api_item\<close> over the image list, with its variable
  \<open>preferred\<close>: the \<open>url\<close> of the first image whose kind names a box, a pack or a cover
  and whose \<open>url\<close> is true.
\<close>

fun preferred_image :: "ucd \<Rightarrow> pyval list \<Rightarrow> pyval \<Rightarrow> pyerror + pyval" where
  "preferred_image U [] preferred = Inr preferred"
| "preferred_image U (img # imgs) preferred =
     (case img of
        PDict di \<Rightarrow>
          (case py_or (py_or (dict_get di (ustr ''type'')) (dict_get di (ustr ''purpose''))) (PStr []) of
             PStr k \<Rightarrow>
               (let kind = str_lower U k
                in if str_contains (ustr ''box'') kind \<or> str_contains (ustr ''pack'') kind
                      \<or> str_contains (ustr ''cover'') kind
                   then (let p = dict_get di (ustr ''url'')
                         in if truthy p then Inr p else preferred_image U imgs p)
                   else preferred_image U imgs preferred)
           | _ \<Rightarrow> Inl AttributeError)
      | _ \<Rightarrow> preferred_image U imgs preferred)"

definition api_image :: "runtime \<Rightarrow> (pystr \<times> pyval) list \<Rightarrow> pyerror + pystr" where
  "api_image R it =
     (let image = py_or (py_or (py_or (dict_get it (ustr ''image'')) (dict_get it (ustr ''imageUrl'')))
                               (dict_get it (ustr ''boxArt''))) (dict_get it (ustr ''heroBanner''))
      in ebind
           (if \<not> truthy image
            then (case py_or (py_or (dict_get it (ustr ''images'')) (dict_get it (ustr ''keyImages'')))
                             (PList []) of
                    PList (i0 # imgs) \<Rightarrow>
                      ebind (preferred_image (unicode R) (i0 # imgs) PNone)
                        (\<lambda>preferred.
                           Inr (py_or preferred
                                  (case i0 of PDict d0 \<Rightarrow> dict_get d0 (ustr ''url'') | _ \<Rightarrow> i0)))
                  | _ \<Rightarrow> Inr image)
            else Inr image)
           (\<lambda>image. Inr (if truthy image then py_str R image else nintendo_placeholder)))"

definition api_href :: "runtime \<Rightarrow> AdapterConfig \<Rightarrow> (pystr \<times> pyval) list \<Rightarrow> pyval" where
  "api_href R cfg it =
     (let href = py_or (py_or (dict_get it (ustr ''productUrl'')) (dict_get it (ustr ''url'')))
                       (dict_get it (ustr ''webUrl''))
      in if \<not> truthy href
         then (let slug = py_or (dict_get it (ustr ''slug'')) (dict_get it (ustr ''seoName''));
                   nsuid = py_or (dict_get it (ustr ''nsuid'')) (dict_get it (ustr ''id''));
                   loc = str_lower (unicode R) (replace_char 0x5F (ustr ''-'') (cfg_locale cfg))
               in if truthy slug
                  then PStr (ustr ''https://www.nintendo.com/'' @ loc @ ustr ''/store/products/''
                             @ py_str R slug @ ustr ''/'')
                  else if truthy nsuid
                  then PStr (ustr ''https://www.nintendo.com/'' @ loc @ ustr ''/store/products/''
                             @ py_str R nsuid @ ustr ''/'')
                  else PStr (ustr ''https://www.nintendo.com/'' @ loc @ ustr ''/store/''))
         else href)"

definition api_price :: "runtime \<Rightarrow> (pystr \<times> pyval) list \<Rightarrow> pyerror + pystr" where
  "api_price R it =
     ebind
       (let p = dict_get it (ustr ''price'')
        in if truthy p
           then (case p of PDict dp \<Rightarrow> Inr (dict_get dp (ustr ''display'')) | _ \<Rightarrow> Inl AttributeError)
           else Inr PNone)
       (\<lambda>d0.
          let display = py_or (py_or d0 (dict_get it (ustr ''displayPrice'')))
                              (dict_get it (ustr ''priceDisplay''));
              price_obj = py_or (dict_get it (ustr ''price'')) (PDict []);
              amount = (case price_obj of
                          PDict po \<Rightarrow>
                            (let amt = py_or (py_or (py_or (dict_get po (ustr ''discounted''))
                                                           (dict_get po (ustr ''current'')))
                                                    (dict_get po (ustr ''regular'')))
                                             (dict_get po (ustr ''amount''))
                             in if amt \<noteq> PNone then py_float R amt else None)
                        | _ \<Rightarrow> None);
              currency = (case price_obj of
                            PDict po \<Rightarrow> py_or (dict_get po (ustr ''currency''))
                                               (dict_get po (ustr ''currencyCode''))
                          | _ \<Rightarrow> PNone)
          in case display of
               PStr s \<Rightarrow> Inr s
             | _ \<Rightarrow> call_price_to_string (unicode R) amount currency)"

definition api_platforms :: "runtime \<Rightarrow> (pystr \<times> pyval) list \<Rightarrow> pyerror + pystr list" where
  "api_platforms R it =
     (let platforms = py_or (dict_get it (ustr ''platforms'')) (PList []);
          platforms = (if \<not> truthy platforms then PList [PStr (ustr ''Switch'')] else platforms)
      in ebind (py_iter platforms) (\<lambda>ps. Inr (map (py_str R) (filter truthy ps))))"

definition normalize_api_item ::
  "runtime \<Rightarrow> AdapterConfig \<Rightarrow> pyval \<Rightarrow> pyerror + GameRecord option" where
  "normalize_api_item R cfg v =
     (case v of
        PDict it \<Rightarrow>
          ebind (clean_title_any (unicode R)
                   (py_or (py_or (py_or (dict_get it (ustr ''title'')) (dict_get it (ustr ''name'')))
                                 (dict_get it (ustr ''productTitle''))) (PStr [])))
            (\<lambda>t. let nm = strip_edition_noise (unicode R) t
                  in if nm = [] then Inr None
                     else
                       ebind (api_image R it) (\<lambda>img.
                       let hr = api_href R cfg it
                       in ebind (api_price R it) (\<lambda>price_str.
                          let uid = py_or (py_or (dict_get it (ustr ''nsuid'')) (dict_get it (ustr ''id'')))
                                          (dict_get it (ustr ''productId''))
                          in ebind (api_platforms R it) (\<lambda>plats.
                             ebind (GameRecord_new R (ustr ''nintendo'') nm price_str img (py_str R hr)
                                      (if truthy uid then Some (py_str R uid) else None)
                                      plats None (Some (ustr ''game'')))
                               (\<lambda>r. Inr (Some r))))))
      | _ \<Rightarrow> Inl AttributeError)"

definition normalize_jsonld_item ::
  "runtime \<Rightarrow> (pystr \<times> pyval) list \<Rightarrow> pystr \<Rightarrow> pyerror + GameRecord option" where
  "normalize_jsonld_item R b base_url =
     ebind (clean_title_any (unicode R) (py_or (dict_get b (ustr ''name'')) (PStr [])))
       (\<lambda>t. let nm = strip_edition_noise (unicode R) t
             in if nm = [] then Inr None
                else
                  (let img = (case dict_get b (ustr ''image'') of
                                PList [] \<Rightarrow> PNone
                              | PList (i0 # imgs) \<Rightarrow> i0
                              | i \<Rightarrow> i);
                       offers = (case py_or (dict_get b (ustr ''offers'')) (PDict []) of
                                   PList [] \<Rightarrow> PDict []
                                 | PList (o0 # os) \<Rightarrow> o0
                                 | os \<Rightarrow> os)
                   in case offers of
                        PDict od \<Rightarrow>
                          (let currency = dict_get od (ustr ''priceCurrency'');
                               amt = (if dict_has od (ustr ''price'')
                                      then py_float R (dict_get od (ustr ''price'')) else None)
                           in ebind (call_price_to_string (unicode R) amt currency) (\<lambda>price_str.
                              let hr = py_or (dict_get b (ustr ''url'')) (PStr base_url);
                                  uid = py_or (py_or (py_or (dict_get b (ustr ''sku''))
                                                            (dict_get b (ustr ''productID'')))
                                                     (dict_get b (ustr ''mpn''))) PNone
                              in ebind (GameRecord_new R (ustr ''nintendo'') nm price_str
                                          (if truthy img then py_str R img else nintendo_placeholder)
                                          (py_str R hr)
                                          (if truthy uid then Some (py_str R uid) else None)
                                          [ustr ''Switch''] None (Some (ustr ''game'')))
                                   (\<lambda>r. Inr (Some r))))
                      | _ \<Rightarrow> Inl AttributeError))"

subsection \<open>Strategy A: the search API\<close>

text \<open>The \<open>for\<close> loop over the container keys: the first value that is a non-empty list.\<close>

fun first_list :: "(pystr \<times> pyval) list \<Rightarrow> pystr list \<Rightarrow> pyval list option" where
  "first_list d [] = None"
| "first_list d (k # ks) =
     (case dict_get d k of
        PList (x # xs) \<Rightarrow> Some (x # xs)
      | _ \<Rightarrow> first_list d ks)"

definition container_keys :: "pystr list" where
  "container_keys = [ustr ''products'', ustr ''items'', ustr ''results'']"

definition extract_items_from_api :: "pyval \<Rightarrow> pyval list" where
  "extract_items_from_api js =
     (case js of
        PDict d \<Rightarrow>
          (case first_list d container_keys of
             Some v \<Rightarrow> v
           | None \<Rightarrow>
               (case dict_get d (ustr ''data'') of
                  PDict dd \<Rightarrow> (case first_list dd container_keys of Some v \<Rightarrow> v | None \<Rightarrow> [])
                | _ \<Rightarrow> []))
      | _ \<Rightarrow> [])"

text \<open>
  The inner loop of \<open>_iter_search_api\<close> over the items of one page: the records it
  yields, and the exception that ends it, if one does. \<open>count\<close> is the number of the
  records.
\<close>

fun normalize_page ::
  "runtime \<Rightarrow> AdapterConfig \<Rightarrow> pyval list \<Rightarrow> GameRecord list \<times> pyerror option" where
  "normalize_page R cfg [] = ([], None)"
| "normalize_page R cfg (it # items) =
     (case normalize_api_item R cfg it of
        Inl e \<Rightarrow> ([], Some e)
      | Inr rec \<Rightarrow>
          (let rest = normalize_page R cfg items
           in (opt_list rec @ fst rest, snd rest)))"

text \<open>
  The \<open>while True\<close> loop of \<open>_iter_search_api\<close>, from page index \<open>page\<close> on. The closure
  \<open>fetch_page\<close>, which formats the URL and calls \<open>get_json\<close> of the base class, is a
  parameter that gives the decoded response of a page index or the exception of the
  request. The result holds the records yielded, the page indices fetched, and the
  exception that ended the generator, if one did; a loop that never ends has no result.
\<close>

partial_function (option) iter_search_api ::
  "runtime \<Rightarrow> AdapterConfig \<Rightarrow> (nat \<Rightarrow> pyerror + pyval) \<Rightarrow> int \<Rightarrow> nat
     \<Rightarrow> (GameRecord list \<times> nat list \<times> pyerror option) option" where
  "iter_search_api R cfg fetch_page page_size page =
     (case fetch_page page of
        Inl e \<Rightarrow> Some ([], [page], Some e)
      | Inr js \<Rightarrow>
          (let res = normalize_page R cfg (extract_items_from_api js)
           in if snd res \<noteq> None then Some (fst res, [page], snd res)
              else if int (length (fst res)) < page_size then Some (fst res, [page], None)
              else Option.bind (iter_search_api R cfg fetch_page page_size (page + 1))
                     (\<lambda>more. Some (fst res @ fst more, page # fst (snd more), snd (snd more)))))"

subsection \<open>Strategy B: listing pages\<close>

definition coerce_to_api_like :: "pyval \<Rightarrow> pystr \<Rightarrow> (pystr \<times> pyval) list" where
  "coerce_to_api_like v base_url =
     (case v of
        PDict it \<Rightarrow>
          [(ustr ''title'',
            py_or (py_or (py_or (dict_get it (ustr ''title'')) (dict_get it (ustr ''name'')))
                         (dict_get it (ustr ''productTitle''))) (PStr []))]
          @ (if truthy (py_or (dict_get it (ustr ''imageUrl'')) (dict_get it (ustr ''image'')))
             then [(ustr ''imageUrl'', py_or (dict_get it (ustr ''imageUrl'')) (dict_get it (ustr ''image'')))]
             else (let imgs = py_or (py_or (dict_get it (ustr ''images'')) (dict_get it (ustr ''keyImages'')))
                                    (PList [])
                   in if truthy imgs then [(ustr ''keyImages'', imgs)] else []))
          @ [(ustr ''productUrl'',
              py_or (py_or (py_or (dict_get it (ustr ''url'')) (dict_get it (ustr ''href'')))
                           (dict_get it (ustr ''productUrl''))) (PStr base_url))]
          @ (case py_or (py_or (dict_get it (ustr ''price'')) (dict_get it (ustr ''displayPrice'')))
                        (dict_get it (ustr ''priceDisplay'')) of
               PDict p \<Rightarrow> [(ustr ''price'', PDict p)]
             | PStr p \<Rightarrow> [(ustr ''displayPrice'', PStr p)]
             | _ \<Rightarrow> [])
          @ [(ustr ''nsuid'',
              py_or (py_or (dict_get it (ustr ''nsuid'')) (dict_get it (ustr ''id'')))
                    (dict_get it (ustr ''productId'')))]
          @ (let plats = dict_get it (ustr ''platforms'')
             in if truthy plats then [(ustr ''platforms'', plats)] else [])
      | _ \<Rightarrow> [])"

text \<open>
  The first loop of \<open>walk\<close> on a dictionary: the items of the lists under the four keys
  are normalised.
\<close>

definition walk_keys ::
  "runtime \<Rightarrow> AdapterConfig \<Rightarrow> pystr \<Rightarrow> (pystr \<times> pyval) list \<Rightarrow> pyerror + GameRecord list" where
  "walk_keys R cfg base_url d =
     eseq (\<lambda>key. case dict_get d key of
                   PList v \<Rightarrow>
                     eseq (\<lambda>it. ebind (normalize_api_item R cfg (PDict (coerce_to_api_like it base_url)))
                                  (\<lambda>rec. Inr (opt_list rec))) v
                 | _ \<Rightarrow> Inr [])
          [ustr ''products'', ustr ''items'', ustr ''results'', ustr ''tiles'']"

fun walk :: "runtime \<Rightarrow> AdapterConfig \<Rightarrow> pystr \<Rightarrow> pyval \<Rightarrow> pyerror + GameRecord list"
  and walk_values ::
    "runtime \<Rightarrow> AdapterConfig \<Rightarrow> pystr \<Rightarrow> (pystr \<times> pyval) list \<Rightarrow> pyerror + GameRecord list"
  and walk_list :: "runtime \<Rightarrow> AdapterConfig \<Rightarrow> pystr \<Rightarrow> pyval list \<Rightarrow> pyerror + GameRecord list"
where
  "walk R cfg base_url (PDict d) =
     ebind (walk_keys R cfg base_url d)
       (\<lambda>a. ebind (walk_values R cfg base_url d) (\<lambda>b. Inr (a @ b)))"
| "walk R cfg base_url (PList vs) = walk_list R cfg base_url vs"
| "walk R cfg base_url PNone = Inr []"
| "walk R cfg base_url (PBool b) = Inr []"
| "walk R cfg base_url (PInt i) = Inr []"
| "walk R cfg base_url (PFloat x) = Inr []"
| "walk R cfg base_url (PStr s) = Inr []"
| "walk_values R cfg base_url [] = Inr []"
| "walk_values R cfg base_url (kv # kvs) =
     ebind (walk R cfg base_url (snd kv))
       (\<lambda>a. ebind (walk_values R cfg base_url kvs) (\<lambda>b. Inr (a @ b)))"
| "walk_list R cfg base_url [] = Inr []"
| "walk_list R cfg base_url (v # vs) =
     ebind (walk R cfg base_url v)
       (\<lambda>a. ebind (walk_list R cfg base_url vs) (\<lambda>b. Inr (a @ b)))"

definition parse_next_data ::
  "runtime \<Rightarrow> AdapterConfig \<Rightarrow> pystr \<Rightarrow> pystr \<Rightarrow> pyerror + GameRecord list" where
  "parse_next_data R cfg html base_url =
     (case NEXT_RE_search (unicode R) html of
        None \<Rightarrow> Inr []
      | Some m \<Rightarrow>
          (case json_loads R m of
             None \<Rightarrow> Inr []
           | Some js \<Rightarrow> walk R cfg base_url js))"

definition product_types :: "pystr set" where
  "product_types = {ustr ''product'', ustr ''videogame''}"

text \<open>The body of the loop \<open>for b in blocks\<close> of \<open>_parse_jsonld\<close>.\<close>

definition jsonld_object :: "runtime \<Rightarrow> pystr \<Rightarrow> pyval \<Rightarrow> pyerror + GameRecord list" where
  "jsonld_object R base_url v =
     (case v of
        PDict b \<Rightarrow>
          (let types = {str_lower (unicode R) (py_str R (dict_get_default b (ustr ''@type'') (PStr [])))}
           in case (if dict_has b (ustr ''@graph'') then dict_get b (ustr ''@graph'') else PNone) of
                PList graph \<Rightarrow>
                  eseq (\<lambda>gv. case gv of
                               PDict g \<Rightarrow>
                                 (let t = str_lower (unicode R)
                                            (py_str R (dict_get_default g (ustr ''@type'') (PStr [])))
                                  in if t \<in> product_types
                                     then ebind (normalize_jsonld_item R g base_url)
                                            (\<lambda>rec. Inr (opt_list rec))
                                     else Inr [])
                             | _ \<Rightarrow> Inr [])
                       graph
              | _ \<Rightarrow>
                  if types \<inter> product_types \<noteq> {}
                  then ebind (normalize_jsonld_item R b base_url) (\<lambda>rec. Inr (opt_list rec))
                  else Inr [])
      | _ \<Rightarrow> Inr [])"

text \<open>The body of the loop over the matches: a text that does not parse is passed over.\<close>

definition jsonld_match :: "runtime \<Rightarrow> pystr \<Rightarrow> pystr \<Rightarrow> pyerror + GameRecord list" where
  "jsonld_match R base_url m =
     (case json_loads R m of
        None \<Rightarrow> Inr []
      | Some block \<Rightarrow>
          eseq (jsonld_object R base_url) (case block of PList bs \<Rightarrow> bs | _ \<Rightarrow> [block]))"

definition parse_jsonld :: "runtime \<Rightarrow> pystr \<Rightarrow> pystr \<Rightarrow> pyerror + GameRecord list" where
  "parse_jsonld R html base_url =
     eseq (jsonld_match R base_url) (JSONLD_RE_finditer (unicode R) html)"

text \<open>
  \<open>_iter_list_page\<close>, a generator: the records it yields and the exception that ends it,
  if one does. \<open>get_text\<close> of the base class is a parameter that gives the text of a URL
  or the exception of the request.
\<close>

definition iter_list_page ::
  "runtime \<Rightarrow> AdapterConfig \<Rightarrow> (pystr \<Rightarrow> pyerror + pystr) \<Rightarrow> pystr
     \<Rightarrow> GameRecord list \<times> pyerror option" where
  "iter_list_page R cfg get_text url =
     (case get_text url of
        Inl e \<Rightarrow> ([], Some e)
      | Inr html \<Rightarrow>
          (case parse_next_data R cfg html url of
             Inl e \<Rightarrow> ([], Some e)
           | Inr a \<Rightarrow>
               (case parse_jsonld R html url of
                  Inl e \<Rightarrow> (a, Some e)
                | Inr b \<Rightarrow> (a @ b, None))))"

section \<open>More statements of the specification, in its own words\<close>

text \<open>
  The item array as the specification words it: at the first key of the priority list
  that is present; if none is present at the top level, one level deeper inside \<open>data\<close>;
  otherwise there are no items.
\<close>

definition list_items :: "pyval \<Rightarrow> pyval list" where
  "list_items v = (case v of PList xs \<Rightarrow> xs | _ \<Rightarrow> [])"

definition spec_extract_items :: "pyval \<Rightarrow> pyval list" where
  "spec_extract_items js =
     (case js of
        PDict d \<Rightarrow>
          (case find (dict_has d) container_keys of
             Some k \<Rightarrow> list_items (dict_get d k)
           | None \<Rightarrow>
               (case dict_get d (ustr ''data'') of
                  PDict dd \<Rightarrow>
                    (case find (dict_has dd) container_keys of
                       Some k \<Rightarrow> list_items (dict_get dd k)
                     | None \<Rightarrow> [])
                | _ \<Rightarrow> []))
      | _ \<Rightarrow> [])"

text \<open>
  The same with the test of the code: a key counts when its value is a non-empty list.
\<close>

definition holds_items :: "(pystr \<times> pyval) list \<Rightarrow> pystr \<Rightarrow> bool" where
  "holds_items d k = (case dict_get d k of PList (x # xs) \<Rightarrow> True | _ \<Rightarrow> False)"

definition amended_extract_items :: "pyval \<Rightarrow> pyval list" where
  "amended_extract_items js =
     (case js of
        PDict d \<Rightarrow>
          (case find (holds_items d) container_keys of
             Some k \<Rightarrow> list_items (dict_get d k)
           | None \<Rightarrow>
               (case dict_get d (ustr ''data'') of
                  PDict dd \<Rightarrow>
                    (case find (holds_items dd) container_keys of
                       Some k \<Rightarrow> list_items (dict_get dd k)
                     | None \<Rightarrow> [])
                | _ \<Rightarrow> []))
      | _ \<Rightarrow> [])"

text \<open>
  The canonical key as the specification words it: the edition-stripped title,
  lower-cased, with every character removed that is not alphanumeric.
\<close>

definition spec_canonical_key :: "ucd \<Rightarrow> pystr \<Rightarrow> pystr" where
  "spec_canonical_key U nm = filter (isalnum U) (str_lower U (strip_edition_noise U nm))"

text \<open>
  One page of the search API: the number of records that the loop over its items yields,
  when the page is fetched and no item raises.
\<close>

definition page_count ::
  "runtime \<Rightarrow> AdapterConfig \<Rightarrow> (nat \<Rightarrow> pyerror + pyval) \<Rightarrow> nat \<Rightarrow> nat option" where
  "page_count R cfg fetch_page p =
     (case fetch_page p of
        Inl e \<Rightarrow> None
      | Inr js \<Rightarrow>
          (let res = normalize_page R cfg (extract_items_from_api js)
           in if snd res = None then Some (length (fst res)) else None))"

definition page_records ::
  "runtime \<Rightarrow> AdapterConfig \<Rightarrow> (nat \<Rightarrow> pyerror + pyval) \<Rightarrow> nat \<Rightarrow> GameRecord list" where
  "page_records R cfg fetch_page p =
     (case fetch_page p of
        Inl e \<Rightarrow> []
      | Inr js \<Rightarrow> fst (normalize_page R cfg (extract_items_from_api js)))"

section \<open>More example values\<close>

text \<open>
  \<open>ucd_latin1\<close> is the character database on the code points below 256 (Basic Latin
  and the Latin-1 Supplement), where it is exact; of the other code points it records the
  white-space property only, as \<open>ucd_basic\<close> does.
\<close>

definition latin1_isalnum :: "int \<Rightarrow> bool" where
  "latin1_isalnum c \<longleftrightarrow>
     basic_isalnum c \<or> c = 0xAA \<or> c = 0xB2 \<or> c = 0xB3 \<or> c = 0xB5 \<or> c = 0xB9 \<or> c = 0xBA
     \<or> (0xBC \<le> c \<and> c \<le> 0xBE) \<or> (0xC0 \<le> c \<and> c \<le> 0xD6) \<or> (0xD8 \<le> c \<and> c \<le> 0xF6)
     \<or> (0xF8 \<le> c \<and> c \<le> 0xFF)"

definition latin1_tolower :: "int \<Rightarrow> int" where
  "latin1_tolower c =
     (if (65 \<le> c \<and> c \<le> 90) \<or> (0xC0 \<le> c \<and> c \<le> 0xDE \<and> c \<noteq> 0xD7) then c + 32 else c)"

definition latin1_upper :: "int \<Rightarrow> pystr" where
  "latin1_upper c =
     (if (97 \<le> c \<and> c \<le> 122) \<or> (0xE0 \<le> c \<and> c \<le> 0xFE \<and> c \<noteq> 0xF7) then [c - 32]
      else if c = 0xDF then [0x53, 0x53]
      else if c = 0xFF then [0x178]
      else if c = 0xB5 then [0x39C]
      else [c])"

definition ucd_latin1 :: ucd where
  "ucd_latin1 = \<lparr> isspace = basic_isspace, isalnum = latin1_isalnum, tolower = latin1_tolower,
                  str_lower = map latin1_tolower,
                  str_upper = (\<lambda>s. concat (map latin1_upper s)) \<rparr>"

text \<open>The title \<open>Pok\<close>, e with acute accent (U+00E9), \<open>mon\<close>.\<close>

definition pokemon_title :: pystr where
  "pokemon_title = ustr ''Pok'' @ [0xE9] @ ustr ''mon''"

text \<open>A string between double quotes, for writing JSON and HTML.\<close>

definition dq :: "pystr \<Rightarrow> pystr" where
  "dq s = [0x22] @ s @ [0x22]"

text \<open>
  The linked-data block of the end-to-end scenario, as text and as the value that
  \<open>json.loads\<close> gives for the text, and a listing page that holds this one block.
\<close>

definition super_game_title :: pystr where
  "super_game_title = ustr ''Super Game'' @ [0x2122] @ ustr '': Deluxe Edition''"

definition super_game_offers :: "(pystr \<times> pyval) list" where
  "super_game_offers =
     [(ustr ''price'', PStr (ustr ''29.99'')), (ustr ''priceCurrency'', PStr (ustr ''USD''))]"

definition super_game_block :: "(pystr \<times> pyval) list" where
  "super_game_block =
     [(ustr ''@type'', PStr (ustr ''VideoGame'')),
      (ustr ''name'', PStr super_game_title),
      (ustr ''offers'', PDict super_game_offers)]"

definition super_game_text :: pystr where
  "super_game_text =
     ustr ''{'' @ dq (ustr ''@type'') @ ustr '': '' @ dq (ustr ''VideoGame'') @ ustr '', ''
     @ dq (ustr ''name'') @ ustr '': '' @ dq super_game_title @ ustr '', ''
     @ dq (ustr ''offers'') @ ustr '': {'' @ dq (ustr ''price'') @ ustr '': '' @ dq (ustr ''29.99'')
     @ ustr '', '' @ dq (ustr ''priceCurrency'') @ ustr '': '' @ dq (ustr ''USD'') @ ustr ''}}''"

definition super_game_page :: pystr where
  "super_game_page =
     ustr ''<html><head><script type='' @ dq (ustr ''application/ld+json'') @ ustr ''>''
     @ super_game_text @ ustr ''</script></head><body></body></html>''"

text \<open>
  A page whose embedded-data block and whose first linked-data block are cut short, so
  that neither is valid JSON, followed by the block above.
\<close>

definition broken_page :: pystr where
  "broken_page =
     ustr ''<html><script id='' @ dq (ustr ''__NEXT_DATA__'') @ ustr '' type=''
     @ dq (ustr ''application/json'') @ ustr ''>{'' @ dq (ustr ''props'') @ ustr '': </script>''
     @ ustr ''<script type='' @ dq (ustr ''application/ld+json'') @ ustr ''>{'' @ dq (ustr ''@type'')
     @ ustr ''</script>''
     @ ustr ''<script type='' @ dq (ustr ''application/ld+json'') @ ustr ''>''
     @ super_game_text @ ustr ''</script></html>''"

text \<open>
  A second linked-data block, valid JSON, of type \<open>Product\<close> with a relative \<open>url\<close>, as
  text and as the value that \<open>json.loads\<close> gives for the text; and a page whose
  embedded-data block is cut short and which holds the block of the scenario and this one.
\<close>

definition beta_block :: "(pystr \<times> pyval) list" where
  "beta_block =
     [(ustr ''@type'', PStr (ustr ''Product'')),
      (ustr ''name'', PStr (ustr ''Beta'')),
      (ustr ''url'', PStr (ustr ''/store/products/beta/''))]"

definition beta_text :: pystr where
  "beta_text =
     ustr ''{'' @ dq (ustr ''@type'') @ ustr '': '' @ dq (ustr ''Product'') @ ustr '', ''
     @ dq (ustr ''name'') @ ustr '': '' @ dq (ustr ''Beta'') @ ustr '', ''
     @ dq (ustr ''url'') @ ustr '': '' @ dq (ustr ''/store/products/beta/'') @ ustr ''}''"

definition relative_url_page :: pystr where
  "relative_url_page =
     ustr ''<html><script id='' @ dq (ustr ''__NEXT_DATA__'') @ ustr '' type=''
     @ dq (ustr ''application/json'') @ ustr ''>{'' @ dq (ustr ''props'') @ ustr '': </script>''
     @ ustr ''<script type='' @ dq (ustr ''application/ld+json'') @ ustr ''>''
     @ super_game_text @ ustr ''</script>''
     @ ustr ''<script type='' @ dq (ustr ''application/ld+json'') @ ustr ''>''
     @ beta_text @ ustr ''</script></html>''"

text \<open>
  A response of the search API with two raw items, the second without a title.
\<close>

definition two_item_response :: pyval where
  "two_item_response =
     PDict [(ustr ''products'',
             PList [PDict [(ustr ''title'', PStr (ustr ''Alpha'')),
                           (ustr ''productUrl'', PStr (ustr ''https://www.nintendo.com/alpha/''))],
                    PDict [(ustr ''title'', PStr [])]])]"

text \<open>A response of the search API with two raw items that both give a record.\<close>

definition full_response :: pyval where
  "full_response =
     PDict [(ustr ''products'',
             PList [PDict [(ustr ''title'', PStr (ustr ''Alpha'')),
                           (ustr ''productUrl'', PStr (ustr ''https://www.nintendo.com/alpha/''))],
                    PDict [(ustr ''title'', PStr (ustr ''Beta'')),
                           (ustr ''productUrl'', PStr (ustr ''https://www.nintendo.com/beta/''))]])]"

definition example_fetch_page :: "nat \<Rightarrow> pyerror + pyval" where
  "example_fetch_page p = (if p = 0 then Inr full_response else Inr two_item_response)"

text \<open>
  A runtime for the examples: the character database of Basic Latin; \<open>json.loads\<close> and
  \<open>float\<close> on the texts that occur in the examples (the two cut-short blocks are not
  valid JSON); URLs that begin with \<open>https://\<close> taken as valid and in normal form, a URL
  without a scheme being no valid \<open>HttpUrl\<close>. \<open>str\<close> of a value that is no string is not
  reached by the examples.
\<close>

definition example_runtime :: runtime where
  "example_runtime =
     \<lparr> unicode = ucd_basic,
       json_loads = map_of [(super_game_text, PDict super_game_block),
                            (beta_text, PDict beta_block)],
       float_of_str = map_of [(ustr ''29.99'', float_29_99)],
       float_of_int = (\<lambda>i. if \<bar>i\<bar> < 2 ^ 53 then Some (Finite (i < 0) \<bar>i\<bar> 0) else None),
       str_of = (\<lambda>v. []),
       http_url = (\<lambda>u. if take 8 u = ustr ''https://'' then Some u else None) \<rparr>"

definition example_config :: AdapterConfig where
  "example_config = \<lparr> cfg_country = ustr ''US'', cfg_locale = ustr ''en-US'' \<rparr>"

definition example_url :: pystr where
  "example_url = ustr ''https://www.nintendo.com/en-us/store/games''"

definition super_game_record :: "pystr \<Rightarrow> GameRecord" where
  "super_game_record url =
     \<lparr> store = ustr ''nintendo'', name = ustr ''Super Game:'', price = ustr ''$29.99'',
       image = nintendo_placeholder, href = url, uuid = None, platforms = [ustr ''Switch''],
       rating = None, type = Some (ustr ''game''), extra = [] \<rparr>"

section \<open>Auxiliary predicates\<close>

text \<open>No two neighbours of the string are both white space.\<close>

fun no_ws_run :: "ucd \<Rightarrow> pystr \<Rightarrow> bool" where
  "no_ws_run U [] = True"
| "no_ws_run U [c] = True"
| "no_ws_run U (c # d # s) = (\<not> (isspace U c \<and> isspace U d) \<and> no_ws_run U (d # s))"

section \<open>Title cleaning\<close>

lemma collapse_ws_Nil_iff: "collapse_ws U s = [] \<longleftrightarrow> s = []"
  by (cases s) auto

lemma hd_collapse_ws: "s \<noteq> [] \<Longrightarrow> \<not> isspace U (hd s) \<Longrightarrow> hd (collapse_ws U s) = hd s"
  by (cases s) auto

lemma dropWhile_hd: "dropWhile P s = [] \<or> \<not> P (hd (dropWhile P s))"
  by (metis hd_dropWhile)

lemma no_ws_run_Cons:
  "no_ws_run U (c # t) \<longleftrightarrow> (t = [] \<or> \<not> (isspace U c \<and> isspace U (hd t))) \<and> no_ws_run U t"
  by (cases t) auto

lemma last_dropWhile: "dropWhile P xs \<noteq> [] \<Longrightarrow> last (dropWhile P xs) = last xs"
  by (metis last_appendR takeWhile_dropWhile_id)

lemma collapse_ws_head_ok:
  "r = [] \<or> \<not> isspace U (hd r) \<Longrightarrow>
   collapse_ws U r = [] \<or> \<not> isspace U (hd (collapse_ws U r))"
  by (cases r) auto

lemma no_ws_run_collapse_ws: "no_ws_run U (collapse_ws U s)"
proof (induction U s rule: collapse_ws.induct)
  case (1 U)
  show ?case by simp
next
  case (2 U c cs)
  show ?case
  proof (cases "isspace U c \<and> cs \<noteq> [] \<and> isspace U (hd cs)")
    case True
    define r where "r = dropWhile (isspace U) cs"
    have "r = [] \<or> \<not> isspace U (hd r)" unfolding r_def by (rule dropWhile_hd)
    then have h: "collapse_ws U r = [] \<or> \<not> isspace U (hd (collapse_ws U r))"
      by (rule collapse_ws_head_ok)
    from True 2 have n: "no_ws_run U (collapse_ws U r)" by (simp add: r_def)
    from True have "collapse_ws U (c # cs) = 32 # collapse_ws U r" by (simp add: r_def)
    with h n show ?thesis by (simp add: no_ws_run_Cons)
  next
    case False
    then have "cs = [] \<or> \<not> (isspace U c \<and> isspace U (hd cs))" by auto
    then have h: "collapse_ws U cs = [] \<or> \<not> (isspace U c \<and> isspace U (hd (collapse_ws U cs)))"
      by (cases cs) auto
    from False 2 have n: "no_ws_run U (collapse_ws U cs)" by simp
    from False have "collapse_ws U (c # cs) = c # collapse_ws U cs" by auto
    with h n show ?thesis by (simp add: no_ws_run_Cons)
  qed
qed

lemma collapse_ws_id: "no_ws_run U s \<Longrightarrow> collapse_ws U s = s"
  by (induction U s rule: no_ws_run.induct) auto

lemma last_collapse_ws:
  "s \<noteq> [] \<Longrightarrow> \<not> isspace U (last s) \<Longrightarrow> last (collapse_ws U s) = last s"
proof (induction U s rule: collapse_ws.induct)
  case (1 U)
  then show ?case by simp
next
  case (2 U c cs)
  show ?case
  proof (cases "isspace U c \<and> cs \<noteq> [] \<and> isspace U (hd cs)")
    case True
    define r where "r = dropWhile (isspace U) cs"
    from True "2.prems" have l: "\<not> isspace U (last cs)" by simp
    from True have "last cs \<in> set cs" by simp
    with l have ne: "r \<noteq> []" unfolding r_def by (auto simp: dropWhile_eq_Nil_conv)
    then have lr: "last r = last cs" unfolding r_def by (rule last_dropWhile)
    from True ne l lr "2.IH"(1) have "last (collapse_ws U r) = last r" by (simp add: r_def)
    moreover from ne have "collapse_ws U r \<noteq> []" by (simp add: collapse_ws_Nil_iff)
    moreover from True have "collapse_ws U (c # cs) = 32 # collapse_ws U r" by (simp add: r_def)
    ultimately show ?thesis using True lr by simp
  next
    case False
    then have e: "collapse_ws U (c # cs) = c # collapse_ws U cs" by auto
    show ?thesis
    proof (cases "cs = []")
      case True
      then show ?thesis by simp
    next
      case ne: False
      with "2.prems" have "\<not> isspace U (last cs)" by simp
      with False ne "2.IH"(2) have "last (collapse_ws U cs) = last cs" by simp
      with ne e show ?thesis by (simp add: collapse_ws_Nil_iff)
    qed
  qed
qed

lemma set_collapse_ws: "set (collapse_ws U s) \<subseteq> insert 32 (set s)"
proof (induction U s rule: collapse_ws.induct)
  case (1 U)
  show ?case by simp
next
  case (2 U c cs)
  have "set (dropWhile (isspace U) cs) \<subseteq> set cs" by (simp add: set_dropWhileD subsetI)
  with 2 show ?case by auto
qed

lemma strip_where_ends:
  "strip_where P s = [] \<or> (\<not> P (hd (strip_where P s)) \<and> \<not> P (last (strip_where P s)))"
proof -
  define d where "d = dropWhile P s"
  define r where "r = dropWhile P (rev d)"
  have sw: "strip_where P s = rev r" by (simp add: strip_where_def r_def d_def)
  show ?thesis
  proof (cases "d = []")
    case True
    then show ?thesis by (simp add: sw r_def)
  next
    case False
    have "d = [] \<or> \<not> P (hd d)" unfolding d_def by (rule dropWhile_hd)
    with False have h: "\<not> P (hd d)" by simp
    from False have "hd d \<in> set (rev d)" by simp
    with h have ne: "r \<noteq> []" unfolding r_def by (auto simp: dropWhile_eq_Nil_conv)
    have "r = [] \<or> \<not> P (hd r)" unfolding r_def by (rule dropWhile_hd)
    with ne have hr: "\<not> P (hd r)" by simp
    from ne have "last r = last (rev d)" unfolding r_def by (rule last_dropWhile)
    with False have lr: "last r = hd d" by (simp add: last_rev)
    from ne hr h lr show ?thesis by (simp add: sw hd_rev last_rev)
  qed
qed

lemma strip_where_id:
  "s = [] \<or> (\<not> P (hd s) \<and> \<not> P (last s)) \<Longrightarrow> strip_where P s = s"
proof (cases "s = []")
  case True
  then show ?thesis by (simp add: strip_where_def)
next
  case False
  assume "s = [] \<or> (\<not> P (hd s) \<and> \<not> P (last s))"
  with False have h: "\<not> P (hd s)" and l: "\<not> P (last s)" by auto
  from False h have d: "dropWhile P s = s" by (cases s) auto
  from False l have "dropWhile P (rev s) = rev s" by (cases "rev s") (auto simp: last_rev hd_rev)
  with d show ?thesis by (simp add: strip_where_def)
qed

lemma set_dropWhile_subset: "set (dropWhile P xs) \<subseteq> set xs"
  by (auto dest: set_dropWhileD)

lemma set_strip_where: "set (strip_where P s) \<subseteq> set s"
proof -
  have "set (strip_where P s) = set (dropWhile P (rev (dropWhile P s)))"
    by (simp add: strip_where_def)
  also have "\<dots> \<subseteq> set (rev (dropWhile P s))" by (rule set_dropWhile_subset)
  also have "\<dots> = set (dropWhile P s)" by simp
  also have "\<dots> \<subseteq> set s" by (rule set_dropWhile_subset)
  finally show ?thesis .
qed

lemma clean_title_fixed:
  "MARK_RX_sub (clean_title U x) = clean_title U x"
  "strip U (clean_title U x) = clean_title U x"
  "collapse_ws U (clean_title U x) = clean_title U x"
proof -
  define m where "m = MARK_RX_sub x"
  define s where "s = strip U m"
  define t where "t = collapse_ws U s"
  have t: "clean_title U x = t" by (simp add: clean_title_def t_def s_def m_def)
  have "set t \<subseteq> insert 32 (set s)" unfolding t_def by (rule set_collapse_ws)
  moreover have "set s \<subseteq> set m" unfolding s_def strip_def by (rule set_strip_where)
  ultimately have st: "set t \<subseteq> insert 32 (set m)" by blast
  have "\<forall>c\<in>set m. c \<noteq> 0x2122 \<and> c \<noteq> 0xAE \<and> c \<noteq> 0xA9"
    by (simp add: m_def MARK_RX_sub_def)
  with st have "\<forall>c\<in>set t. c \<noteq> 0x2122 \<and> c \<noteq> 0xAE \<and> c \<noteq> 0xA9"
    by fastforce
  then show "MARK_RX_sub (clean_title U x) = clean_title U x"
    unfolding t MARK_RX_sub_def by (simp add: filter_id_conv)
  show "collapse_ws U (clean_title U x) = clean_title U x"
    unfolding t t_def by (rule collapse_ws_id) (rule no_ws_run_collapse_ws)
  have e: "s = [] \<or> (\<not> isspace U (hd s) \<and> \<not> isspace U (last s))"
    unfolding s_def strip_def by (rule strip_where_ends)
  have "t = [] \<or> (\<not> isspace U (hd t) \<and> \<not> isspace U (last t))"
  proof (cases "s = []")
    case True
    then show ?thesis by (simp add: t_def)
  next
    case False
    with e show ?thesis by (simp add: t_def hd_collapse_ws last_collapse_ws)
  qed
  then show "strip U (clean_title U x) = clean_title U x"
    unfolding t strip_def by (rule strip_where_id)
qed

lemma clean_title_idem: "clean_title U (clean_title U x) = clean_title U x"
proof -
  have "clean_title U (clean_title U x) = collapse_ws U (strip U (MARK_RX_sub (clean_title U x)))"
    by (simp add: clean_title_def)
  then show ?thesis by (simp add: clean_title_fixed)
qed


lemma strip_where_idem: "strip_where P (strip_where P s) = strip_where P s"
  by (rule strip_where_id) (rule strip_where_ends)

text \<open>
  Claim C5, the part that fails: \<open>strip_edition_noise\<close> applied twice to
  \<open>x director's hd cut\<close> gives \<open>x\<close>, applied once it gives \<open>x director's cut\<close>. Deleting
  \<open>hd\<close> brings \<open>director's\<close> and \<open>cut\<close> together, and the second pass deletes the pair.
\<close>

theorem strip_edition_noise_idem_counterexample:
  "strip_edition_noise ucd_basic
     (strip_edition_noise ucd_basic (ustr ''x director'' @ [0x27] @ ustr ''s hd cut''))
   \<noteq> strip_edition_noise ucd_basic (ustr ''x director'' @ [0x27] @ ustr ''s hd cut'')"
  by code_simp

text \<open>
  Claim C5, as amended: \<open>clean_title\<close> is idempotent on every string, for every
  character database; \<open>strip_edition_noise\<close> applied to its own result \<open>y\<close> returns \<open>y\<close>
  whenever \<open>y\<close> is a clean title in which the edition pattern finds nothing.
\<close>

theorem title_idempotence:
  "clean_title U (clean_title U x) = clean_title U x \<and>
   (clean_title U (strip_edition_noise U x) = strip_edition_noise U x \<and>
    EDITION_RX_sub U (strip_edition_noise U x) = strip_edition_noise U x \<longrightarrow>
    strip_edition_noise U (strip_edition_noise U x) = strip_edition_noise U x)"
proof (intro conjI impI)
  show "clean_title U (clean_title U x) = clean_title U x" by (rule clean_title_idem)
next
  define a where "a = clean_title U x"
  define b where "b = strip_chars edition_strip_chars (collapse_ws U (EDITION_RX_sub U a))"
  define y where "y = strip_edition_noise U x"
  assume "clean_title U (strip_edition_noise U x) = strip_edition_noise U x \<and>
          EDITION_RX_sub U (strip_edition_noise U x) = strip_edition_noise U x"
  then have cy: "clean_title U y = y" and ey: "EDITION_RX_sub U y = y" by (simp_all add: y_def)
  have y: "y = (if b \<noteq> [] then b else a)"
    by (simp add: y_def strip_edition_noise_def a_def b_def Let_def)
  have ca: "clean_title U a = a" unfolding a_def by (rule clean_title_idem)
  have sy: "strip_edition_noise U y =
              (if strip_chars edition_strip_chars (collapse_ws U (EDITION_RX_sub U y)) \<noteq> []
               then strip_chars edition_strip_chars (collapse_ws U (EDITION_RX_sub U y)) else y)"
    by (simp add: strip_edition_noise_def Let_def cy)
  have "strip_edition_noise U y = y"
  proof (cases "b = []")
    case True
    with y have "y = a" by simp
    with True show ?thesis unfolding sy by (simp add: b_def)
  next
    case False
    with y have yb: "y = b" by simp
    have "collapse_ws U y = y" using clean_title_fixed(3) [of U y] by (simp add: cy)
    moreover have "strip_chars edition_strip_chars y = y"
      unfolding yb b_def strip_chars_def by (rule strip_where_idem)
    ultimately show ?thesis unfolding sy by (simp add: ey)
  qed
  then show "strip_edition_noise U (strip_edition_noise U x) = strip_edition_noise U x"
    by (simp add: y_def)
qed

theorem title_idempotence_witness:
  "clean_title ucd_basic (strip_edition_noise ucd_basic (ustr ''Super Game Deluxe''))
     = strip_edition_noise ucd_basic (ustr ''Super Game Deluxe'') \<and>
   EDITION_RX_sub ucd_basic (strip_edition_noise ucd_basic (ustr ''Super Game Deluxe''))
     = strip_edition_noise ucd_basic (ustr ''Super Game Deluxe'') \<and>
   strip_edition_noise ucd_basic (strip_edition_noise ucd_basic (ustr ''Super Game Deluxe''))
     = strip_edition_noise ucd_basic (ustr ''Super Game Deluxe'') \<and>
   strip_edition_noise ucd_basic (ustr ''Super Game Deluxe'') = ustr ''Super Game''"
proof -
  have a: "clean_title ucd_basic (strip_edition_noise ucd_basic (ustr ''Super Game Deluxe''))
     = strip_edition_noise ucd_basic (ustr ''Super Game Deluxe'')"
    by code_simp
  have b: "EDITION_RX_sub ucd_basic (strip_edition_noise ucd_basic (ustr ''Super Game Deluxe''))
     = strip_edition_noise ucd_basic (ustr ''Super Game Deluxe'')"
    by code_simp
  have c: "strip_edition_noise ucd_basic (ustr ''Super Game Deluxe'') = ustr ''Super Game''"
    by code_simp
  from a b title_idempotence [of ucd_basic "ustr ''Super Game Deluxe''"]
  have "strip_edition_noise ucd_basic (strip_edition_noise ucd_basic (ustr ''Super Game Deluxe''))
     = strip_edition_noise ucd_basic (ustr ''Super Game Deluxe'')"
    by blast
  with a b c show ?thesis by blast
qed

section \<open>Letter buckets\<close>

text \<open>
  Claim C9 as stated fails on a name with leading white space: the bucket of
  \<open>" tetris"\<close> is \<open>t\<close>, while the first character of the name is a space and the
  statement gives the underscore.
\<close>

theorem letter_bucket_counterexample:
  "letter_bucket ucd_basic (ustr '' tetris'') = ustr ''t'' \<and>
   letter_bucket_spec ucd_basic (ustr '' tetris'') = ustr ''_''"
  by code_simp

text \<open>
  Claim C9, as amended: the bucket is that of the statement taken on the name with the
  surrounding white space stripped, whenever lower-casing the first character of the
  stripped name gives at most one character; \<open>Tetris\<close> goes to \<open>t\<close> and \<open>2048\<close> to the
  underscore.
\<close>

theorem letter_bucket_stripped:
  "(length (str_lower U (take 1 (strip U nm))) \<le> 1 \<longrightarrow>
      letter_bucket U nm = letter_bucket_spec U (strip U nm)) \<and>
   letter_bucket ucd_basic (ustr ''Tetris'') = ustr ''t'' \<and>
   letter_bucket ucd_basic (ustr ''2048'') = ustr ''_''"
proof (intro conjI impI)
  define ch where "ch = str_lower U (take 1 (strip U nm))"
  assume "length (str_lower U (take 1 (strip U nm))) \<le> 1"
  then have "ch = [] \<or> (\<exists>c. ch = [c])"
    unfolding ch_def [symmetric] by (cases ch) auto
  then have "(str_le (ustr ''a'') ch \<and> str_le ch (ustr ''z''))
               = (case ch of [c] \<Rightarrow> 97 \<le> c \<and> c \<le> 122 | _ \<Rightarrow> False)"
    by (auto simp: ustr_def)
  then show "letter_bucket U nm = letter_bucket_spec U (strip U nm)"
    unfolding letter_bucket_def letter_bucket_spec_def Let_def ch_def [symmetric] by simp
next
  show "letter_bucket ucd_basic (ustr ''Tetris'') = ustr ''t''" by code_simp
next
  show "letter_bucket ucd_basic (ustr ''2048'') = ustr ''_''" by code_simp
qed

theorem letter_bucket_stripped_witness:
  "length (str_lower ucd_basic (take 1 (strip ucd_basic (ustr '' tetris'')))) \<le> 1 \<and>
   letter_bucket ucd_basic (ustr '' tetris'') = letter_bucket_spec ucd_basic (strip ucd_basic (ustr '' tetris''))"
proof -
  have a: "length (str_lower ucd_basic (take 1 (strip ucd_basic (ustr '' tetris'')))) \<le> 1"
    by code_simp
  with letter_bucket_stripped [of ucd_basic "ustr '' tetris''"] show ?thesis by blast
qed


section \<open>Price strings\<close>

lemma float_19_99_nearest:
  "float_19_99 = Finite False 5626684784446013 (- 48) \<and>
   2 * \<bar>100 * 5626684784446013 - 1999 * 2 ^ 48\<bar> \<le> (100 :: int) \<and>
   2 ^ 52 \<le> (5626684784446013 :: int) \<and> (5626684784446013 :: int) < 2 ^ 53"
  by (simp add: float_19_99_def)

lemma float_29_99_nearest:
  "float_29_99 = Finite False 8441434551552573 (- 48) \<and>
   2 * \<bar>100 * 8441434551552573 - 2999 * 2 ^ 48\<bar> \<le> (100 :: int) \<and>
   2 ^ 52 \<le> (8441434551552573 :: int) \<and> (8441434551552573 :: int) < 2 ^ 53"
  by (simp add: float_29_99_def)

text \<open>
  Claim C7: the three examples of \<open>price_to_string\<close>, and a non-empty \<open>flags\<close> string is
  returned whatever the amount and the currency are.
\<close>

theorem price_to_string_examples:
  "price_to_string ucd_basic (Some float_19_99) (Some (ustr ''USD'')) None = ustr ''$19.99'' \<and>
   price_to_string ucd_basic (Some float_19_99) (Some (ustr ''EUR'')) None = ustr ''EUR 19.99'' \<and>
   price_to_string ucd_basic None None None = ustr ''Unavailable'' \<and>
   (flags \<noteq> [] \<longrightarrow> price_to_string U amount currency (Some flags) = flags)"
proof (intro conjI impI)
  show "price_to_string ucd_basic (Some float_19_99) (Some (ustr ''USD'')) None = ustr ''$19.99''"
    by code_simp
  show "price_to_string ucd_basic (Some float_19_99) (Some (ustr ''EUR'')) None = ustr ''EUR 19.99''"
    by code_simp
  show "price_to_string ucd_basic None None None = ustr ''Unavailable''"
    by (simp add: price_to_string_def)
  assume "flags \<noteq> []"
  then show "price_to_string U amount currency (Some flags) = flags"
    by (simp add: price_to_string_def)
qed

theorem price_to_string_examples_witness:
  "ustr ''Free'' \<noteq> [] \<and>
   price_to_string ucd_basic (Some float_19_99) (Some (ustr ''USD'')) (Some (ustr ''Free''))
     = ustr ''Free''"
proof -
  have a: "ustr ''Free'' \<noteq> []" by (simp add: ustr_def)
  with price_to_string_examples [of "ustr ''Free''" ucd_basic "Some float_19_99" "Some (ustr ''USD'')"]
  show ?thesis by blast
qed

section \<open>Canonical keys and clusters\<close>

lemma filter_dropWhile_not: "filter P (dropWhile (\<lambda>x. \<not> P x) xs) = filter P xs"
  by (induction xs) auto

lemma non_az09_sub_filter: "non_az09_sub s = filter is_az09 s"
  by (induction s rule: non_az09_sub.induct) (auto simp: filter_dropWhile_not)

lemma map_of_setdefault_append:
  "map_of (setdefault_append b k r) k' =
     (if k' = k then Some ((case map_of b k of None \<Rightarrow> [] | Some xs \<Rightarrow> xs) @ [r])
      else map_of b k')"
  by (induction b k r rule: setdefault_append.induct) auto

lemma keys_setdefault_append:
  "map fst (setdefault_append b k r) = (if k \<in> fst ` set b then map fst b else map fst b @ [k])"
  by (induction b k r rule: setdefault_append.induct) auto

lemma distinct_setdefault_append:
  "distinct (map fst b) \<Longrightarrow> distinct (map fst (setdefault_append b k r))"
  by (simp add: keys_setdefault_append)

lemma map_of_cluster_foldl:
  "map_of (foldl (\<lambda>buckets r. setdefault_append buckets (key r) r) b rs) k =
     (case map_of b k of
        None \<Rightarrow> (if filter (\<lambda>r. key r = k) rs = [] then None
                  else Some (filter (\<lambda>r. key r = k) rs))
      | Some xs \<Rightarrow> Some (xs @ filter (\<lambda>r. key r = k) rs))"
proof (induction rs arbitrary: b)
  case Nil
  show ?case by (simp split: option.split)
next
  case (Cons r rs)
  show ?case
    by (simp add: Cons.IH map_of_setdefault_append split: option.split)
qed

lemma distinct_cluster_foldl:
  "distinct (map fst b) \<Longrightarrow>
   distinct (map fst (foldl (\<lambda>buckets r. setdefault_append buckets (key r) r) b rs))"
  by (induction rs arbitrary: b) (simp_all add: distinct_setdefault_append)

text \<open>
  Claim C6 as stated fails on a title with a letter outside ASCII: in \<open>Pok\<close>, e with
  acute accent, \<open>mon\<close> the accented letter is alphanumeric, and the key of the code is
  \<open>pokmon\<close>, without it; the title \<open>Pokmon\<close> has the same key.
\<close>

theorem canonical_key_alnum_counterexample:
  "isalnum ucd_latin1 0xE9 \<and>
   spec_canonical_key ucd_latin1 pokemon_title = ustr ''pok'' @ [0xE9] @ ustr ''mon'' \<and>
   canonical_key ucd_latin1 pokemon_title = ustr ''pokmon'' \<and>
   canonical_key ucd_latin1 (ustr ''Pokmon'') = ustr ''pokmon''"
  by code_simp

text \<open>
  Claim C6, as amended: the canonical key is the edition-stripped title, lower-cased,
  with every character removed that is not one of \<open>a\<close> to \<open>z\<close> or \<open>0\<close> to \<open>9\<close>; the two
  Halo titles have the key \<open>haloinfinite\<close>; and \<open>cluster\<close> maps each key to the records
  with that key, in the order of the input, and holds each key once.
\<close>

theorem canonical_key_cluster:
  "canonical_key U nm
     = filter (\<lambda>c. (97 \<le> c \<and> c \<le> 122) \<or> (48 \<le> c \<and> c \<le> 57))
         (str_lower U (strip_edition_noise U nm)) \<and>
   canonical_key ucd_basic (ustr ''Halo: Infinite '' @ [0x2013] @ ustr '' Deluxe Edition'')
     = ustr ''haloinfinite'' \<and>
   canonical_key ucd_basic (ustr ''HALO INFINITE'') = ustr ''haloinfinite'' \<and>
   map_of (cluster U rs) k =
     (let bucket = filter (\<lambda>r. canonical_key U (name r) = k) rs
      in if bucket = [] then None else Some bucket) \<and>
   distinct (map fst (cluster U rs))"
proof (intro conjI)
  have "is_az09 = (\<lambda>c. (97 \<le> c \<and> c \<le> 122) \<or> (48 \<le> c \<and> c \<le> 57))"
    by (rule ext) (simp add: is_az09_def)
  then show "canonical_key U nm
     = filter (\<lambda>c. (97 \<le> c \<and> c \<le> 122) \<or> (48 \<le> c \<and> c \<le> 57))
         (str_lower U (strip_edition_noise U nm))"
    by (simp add: canonical_key_def non_az09_sub_filter)
  show "canonical_key ucd_basic (ustr ''Halo: Infinite '' @ [0x2013] @ ustr '' Deluxe Edition'')
     = ustr ''haloinfinite''"
    by code_simp
  show "canonical_key ucd_basic (ustr ''HALO INFINITE'') = ustr ''haloinfinite''"
    by code_simp
  show "map_of (cluster U rs) k =
     (let bucket = filter (\<lambda>r. canonical_key U (name r) = k) rs
      in if bucket = [] then None else Some bucket)"
    unfolding cluster_def Let_def
    by (simp add: map_of_cluster_foldl [where key = "\<lambda>r. canonical_key U (name r)"])
  show "distinct (map fst (cluster U rs))"
    unfolding cluster_def by (rule distinct_cluster_foldl) simp
qed

section \<open>Platform lists\<close>

lemma first_occurrences_Nil: "first_occurrences key [] = []"
  by (simp add: first_occurrences_def)

lemma first_occurrences_snoc:
  "first_occurrences key (xs @ [x]) =
     first_occurrences key xs @ (if key x \<in> key ` set xs then [] else [x])"
proof -
  define F where
    "F = (\<lambda>ys i. if key (ys ! i) \<in> key ` set (take i ys) then [] else [ys ! i])"
  have fo: "first_occurrences key ys = concat (map (F ys) [0..<length ys])" for ys
    by (simp add: first_occurrences_def F_def)
  have eq: "map (F (xs @ [x])) [0..<length xs] = map (F xs) [0..<length xs]"
    by (rule map_cong) (auto simp: F_def nth_append)
  have l: "F (xs @ [x]) (length xs) = (if key x \<in> key ` set xs then [] else [x])"
    by (simp add: F_def)
  have "first_occurrences key (xs @ [x])
          = concat (map (F (xs @ [x])) [0..<length xs]) @ F (xs @ [x]) (length xs)"
    by (simp add: fo)
  also have "\<dots> = concat (map (F xs) [0..<length xs])
                       @ (if key x \<in> key ` set xs then [] else [x])"
    by (simp only: eq l)
  also have "\<dots> = first_occurrences key xs @ (if key x \<in> key ` set xs then [] else [x])"
    by (simp only: fo)
  finally show ?thesis .
qed

lemma set_first_occurrences: "set (first_occurrences key xs) \<subseteq> set xs"
  by (induction xs rule: rev_induct) (auto simp: first_occurrences_Nil first_occurrences_snoc)

lemma keys_first_occurrences: "key ` set (first_occurrences key xs) = key ` set xs"
  by (induction xs rule: rev_induct) (auto simp: first_occurrences_Nil first_occurrences_snoc)

lemma distinct_first_occurrences: "distinct (map key (first_occurrences key xs))"
proof (induction xs rule: rev_induct)
  case Nil
  show ?case by (simp add: first_occurrences_Nil)
next
  case (snoc x xs)
  have "key x \<notin> key ` set xs \<Longrightarrow> key x \<notin> key ` set (first_occurrences key xs)"
    by (simp add: keys_first_occurrences)
  with snoc show ?case by (auto simp: first_occurrences_snoc)
qed

lemma platforms_loop_first_occurrences:
  "platforms_loop U (str_lower U ` set xs) (first_occurrences (str_lower U) xs) v
     = first_occurrences (str_lower U) (xs @ filter (\<lambda>p. p \<noteq> []) (map (strip U) v))"
proof (induction v arbitrary: xs)
  case Nil
  show ?case by simp
next
  case (Cons p v)
  define q where "q = strip U p"
  show ?case
  proof (cases "q \<noteq> [] \<and> str_lower U q \<notin> str_lower U ` set xs")
    case True
    then have "platforms_loop U (str_lower U ` set xs) (first_occurrences (str_lower U) xs) (p # v)
        = platforms_loop U (str_lower U ` set (xs @ [q]))
            (first_occurrences (str_lower U) (xs @ [q])) v"
      by (simp add: q_def [symmetric] first_occurrences_snoc Let_def)
    also have "\<dots> = first_occurrences (str_lower U)
                        ((xs @ [q]) @ filter (\<lambda>p. p \<noteq> []) (map (strip U) v))"
      by (rule Cons.IH)
    finally show ?thesis using True by (simp add: q_def [symmetric])
  next
    case False
    then have e: "platforms_loop U (str_lower U ` set xs) (first_occurrences (str_lower U) xs) (p # v)
        = platforms_loop U (str_lower U ` set xs) (first_occurrences (str_lower U) xs) v"
      by (auto simp: q_def [symmetric] Let_def)
    show ?thesis
    proof (cases "q = []")
      case True
      with e Cons.IH [of xs] show ?thesis by (simp add: q_def [symmetric])
    next
      case ne: False
      with False have m: "str_lower U q \<in> str_lower U ` set xs" by simp
      then have "str_lower U ` set (xs @ [q]) = str_lower U ` set xs" by auto
      moreover from m have "first_occurrences (str_lower U) (xs @ [q])
                              = first_occurrences (str_lower U) xs"
        by (simp add: first_occurrences_snoc)
      ultimately have "platforms_loop U (str_lower U ` set xs)
                          (first_occurrences (str_lower U) xs) v
                       = first_occurrences (str_lower U)
                          ((xs @ [q]) @ filter (\<lambda>p. p \<noteq> []) (map (strip U) v))"
        using Cons.IH [of "xs @ [q]"] by simp
      with e ne show ?thesis by (simp add: q_def [symmetric])
    qed
  qed
qed

lemma platforms_loop_start:
  "platforms_loop U {} [] v
     = first_occurrences (str_lower U) (filter (\<lambda>p. p \<noteq> []) (map (strip U) v))"
  using platforms_loop_first_occurrences [of U "[]" v] by (simp add: first_occurrences_Nil)

lemma GameRecord_new_platforms:
  "GameRecord_new R st nm pr img hr uid v rat ty = Inr r \<Longrightarrow>
   platforms r = GameRecord_platforms_clean (unicode R) v"
  by (auto simp: GameRecord_new_def split: if_splits option.splits)

lemma LetterItem_new_platforms:
  "LetterItem_new R nm ty pr img hr uid v rat = Inr l \<Longrightarrow>
   li_platforms l = LetterItem_platforms_clean (unicode R) v"
  by (auto simp: LetterItem_new_def split: if_splits option.splits)

text \<open>
  Claim C8: the platforms that the validator of either class returns are the stripped,
  non-empty entries of the input that are the first with their lower-cased form, in the
  order of the input, and no two of them have the same lower-cased form; and the
  \<open>platforms\<close> field of a constructed record is what the validator returns.
\<close>

theorem platforms_clean_dedup:
  "GameRecord_platforms_clean U v
     = first_occurrences (str_lower U) (filter (\<lambda>p. p \<noteq> []) (map (strip U) v)) \<and>
   LetterItem_platforms_clean U v
     = first_occurrences (str_lower U) (filter (\<lambda>p. p \<noteq> []) (map (strip U) v)) \<and>
   distinct (map (str_lower U) (GameRecord_platforms_clean U v)) \<and>
   distinct (map (str_lower U) (LetterItem_platforms_clean U v)) \<and>
   (GameRecord_new R st nm pr img hr uid v rat ty = Inr r \<longrightarrow>
      platforms r = GameRecord_platforms_clean (unicode R) v) \<and>
   (LetterItem_new R nm ty pr img hr uid v rat = Inr l \<longrightarrow>
      li_platforms l = LetterItem_platforms_clean (unicode R) v)"
  by (simp add: GameRecord_platforms_clean_def LetterItem_platforms_clean_def
      platforms_loop_start distinct_first_occurrences
      GameRecord_new_platforms [unfolded GameRecord_platforms_clean_def]
      LetterItem_new_platforms [unfolded LetterItem_platforms_clean_def])

theorem platforms_clean_dedup_witness:
  "GameRecord_new example_runtime (ustr ''nintendo'') (ustr ''Alpha'') (ustr ''Free'') example_url
     example_url None [ustr '' Switch'', ustr ''switch '', ustr ''PC''] None None
   = Inr \<lparr> store = ustr ''nintendo'', name = ustr ''Alpha'', price = ustr ''Free'',
           image = example_url, href = example_url, uuid = None,
           platforms = [ustr ''Switch'', ustr ''PC''], rating = None, type = None, extra = [] \<rparr> \<and>
   LetterItem_new example_runtime (ustr ''Alpha'') None (ustr ''Free'') example_url
     example_url None [ustr '' Switch'', ustr ''switch '', ustr ''PC''] None
   = Inr \<lparr> li_name = ustr ''Alpha'', li_type = None, li_price = ustr ''Free'',
           li_image = example_url, li_href = example_url, li_uuid = None,
           li_platforms = [ustr ''Switch'', ustr ''PC''], li_rating = None \<rparr> \<and>
   GameRecord_platforms_clean (unicode example_runtime) [ustr '' Switch'', ustr ''switch '', ustr ''PC'']
   = [ustr ''Switch'', ustr ''PC''] \<and>
   LetterItem_platforms_clean (unicode example_runtime) [ustr '' Switch'', ustr ''switch '', ustr ''PC'']
   = [ustr ''Switch'', ustr ''PC'']"
proof -
  define r where "r = \<lparr> store = ustr ''nintendo'', name = ustr ''Alpha'', price = ustr ''Free'',
           image = example_url, href = example_url, uuid = None,
           platforms = [ustr ''Switch'', ustr ''PC''], rating = None, type = None, extra = [] \<rparr>"
  define l where "l = \<lparr> li_name = ustr ''Alpha'', li_type = None, li_price = ustr ''Free'',
           li_image = example_url, li_href = example_url, li_uuid = None,
           li_platforms = [ustr ''Switch'', ustr ''PC''], li_rating = None \<rparr>"
  have a: "GameRecord_new example_runtime (ustr ''nintendo'') (ustr ''Alpha'') (ustr ''Free'')
     example_url example_url None [ustr '' Switch'', ustr ''switch '', ustr ''PC''] None None = Inr r"
    unfolding r_def by code_simp
  have b: "LetterItem_new example_runtime (ustr ''Alpha'') None (ustr ''Free'') example_url
     example_url None [ustr '' Switch'', ustr ''switch '', ustr ''PC''] None = Inr l"
    unfolding l_def by code_simp
  from a b platforms_clean_dedup [where U = "unicode example_runtime"
      and v = "[ustr '' Switch'', ustr ''switch '', ustr ''PC'']" and R = example_runtime
      and st = "ustr ''nintendo''" and nm = "ustr ''Alpha''" and pr = "ustr ''Free''"
      and img = example_url and hr = example_url and uid = None and rat = None and ty = None
      and r = r and l = l]
  have "platforms r = GameRecord_platforms_clean (unicode example_runtime)
                        [ustr '' Switch'', ustr ''switch '', ustr ''PC'']"
    and "li_platforms l = LetterItem_platforms_clean (unicode example_runtime)
                        [ustr '' Switch'', ustr ''switch '', ustr ''PC'']"
    by blast+
  then have "GameRecord_platforms_clean (unicode example_runtime)
               [ustr '' Switch'', ustr ''switch '', ustr ''PC''] = [ustr ''Switch'', ustr ''PC'']"
    and "LetterItem_platforms_clean (unicode example_runtime)
               [ustr '' Switch'', ustr ''switch '', ustr ''PC''] = [ustr ''Switch'', ustr ''PC'']"
    by (simp_all add: r_def l_def)
  with a b show ?thesis by (simp add: r_def l_def)
qed

lemma strip_ends:
  "strip U s \<noteq> [] \<Longrightarrow> \<not> isspace U (hd (strip U s)) \<and> \<not> isspace U (last (strip U s))"
  using strip_where_ends [of "isspace U" s] by (simp add: strip_def)

text \<open>
  Claim C10: every entry that the validator of either class returns, which is the
  \<open>platforms\<close> field of the constructed record, is a stripped input entry, is not
  empty, and neither begins nor ends with white space; and no stripped, non-empty input
  entry is lost but for its letter case.
\<close>

theorem platforms_clean_entries:
  "(\<forall>p \<in> set (GameRecord_platforms_clean U v) \<union> set (LetterItem_platforms_clean U v).
      p \<in> strip U ` set v \<and> p \<noteq> [] \<and> \<not> isspace U (hd p) \<and> \<not> isspace U (last p)) \<and>
   (\<forall>q \<in> set v. strip U q \<noteq> [] \<longrightarrow>
      str_lower U (strip U q) \<in> str_lower U ` set (GameRecord_platforms_clean U v) \<and>
      str_lower U (strip U q) \<in> str_lower U ` set (LetterItem_platforms_clean U v))"
proof -
  define xs where "xs = filter (\<lambda>p. p \<noteq> []) (map (strip U) v)"
  have g: "GameRecord_platforms_clean U v = first_occurrences (str_lower U) xs"
    and l: "LetterItem_platforms_clean U v = first_occurrences (str_lower U) xs"
    by (simp_all add: GameRecord_platforms_clean_def LetterItem_platforms_clean_def
        platforms_loop_start xs_def)
  have a: "p \<in> strip U ` set v \<and> p \<noteq> [] \<and> \<not> isspace U (hd p) \<and> \<not> isspace U (last p)"
    if "p \<in> set (first_occurrences (str_lower U) xs)" for p
  proof -
    from that set_first_occurrences [of "str_lower U" xs] have "p \<in> set xs" by blast
    then obtain q where q: "q \<in> set v" "p = strip U q" "p \<noteq> []" by (auto simp: xs_def)
    with strip_ends [of U q] show ?thesis by auto
  qed
  have b: "str_lower U (strip U q) \<in> str_lower U ` set (first_occurrences (str_lower U) xs)"
    if "q \<in> set v" "strip U q \<noteq> []" for q
  proof -
    from that have "strip U q \<in> set xs" by (simp add: xs_def)
    then show ?thesis by (simp add: keys_first_occurrences)
  qed
  from a b show ?thesis unfolding g l by blast
qed

theorem platforms_clean_entries_witness:
  "ustr ''Switch'' \<in> set (GameRecord_platforms_clean ucd_basic [ustr '' Switch'', ustr ''switch '', ustr '' '', ustr ''PC'']) \<and>
   ustr ''Switch'' \<noteq> [] \<and> \<not> isspace ucd_basic (hd (ustr ''Switch'')) \<and>
   \<not> isspace ucd_basic (last (ustr ''Switch'')) \<and>
   ustr ''switch '' \<in> set [ustr '' Switch'', ustr ''switch '', ustr '' '', ustr ''PC''] \<and>
   strip ucd_basic (ustr ''switch '') \<noteq> [] \<and>
   str_lower ucd_basic (strip ucd_basic (ustr ''switch ''))
     \<in> str_lower ucd_basic ` set (GameRecord_platforms_clean ucd_basic [ustr '' Switch'', ustr ''switch '', ustr '' '', ustr ''PC''])"
proof -
  have a: "ustr ''Switch'' \<in> set (GameRecord_platforms_clean ucd_basic [ustr '' Switch'', ustr ''switch '', ustr '' '', ustr ''PC''])"
    by code_simp
  have b: "ustr ''switch '' \<in> set [ustr '' Switch'', ustr ''switch '', ustr '' '', ustr ''PC'']"
    by simp
  have c: "strip ucd_basic (ustr ''switch '') \<noteq> []" by code_simp
  from a b c platforms_clean_entries [of ucd_basic "[ustr '' Switch'', ustr ''switch '', ustr '' '', ustr ''PC'']"]
  show ?thesis by blast
qed


section \<open>The item array of an API response\<close>

lemma first_list_find:
  "first_list d ks =
     (case find (holds_items d) ks of
        None \<Rightarrow> None
      | Some k \<Rightarrow> Some (list_items (dict_get d k)))"
  by (induction ks) (auto simp: holds_items_def list_items_def split: pyval.splits list.splits)

text \<open>
  Claim C3 as stated fails when a key is present without a non-empty list: with
  \<open>products\<close> an empty list and \<open>items\<close> holding one item, the first present key is
  \<open>products\<close>, which gives no items, while the code passes on to \<open>items\<close>.
\<close>

theorem extract_items_counterexample:
  "extract_items_from_api
     (PDict [(ustr ''products'', PList []), (ustr ''items'', PList [PInt 1])]) = [PInt 1] \<and>
   spec_extract_items
     (PDict [(ustr ''products'', PList []), (ustr ''items'', PList [PInt 1])]) = []"
  by code_simp

text \<open>
  Claim C3, as amended: the item array is the value of the first key of the priority
  list whose value is a non-empty list; when no key at the top level has one, the same
  search is made inside \<open>data\<close>, if that is a dictionary; otherwise there are no items.
\<close>

theorem extract_items_first_nonempty:
  "extract_items_from_api js = amended_extract_items js"
  by (simp add: extract_items_from_api_def amended_extract_items_def first_list_find
      split: pyval.splits option.splits)

section \<open>Listing pages\<close>

lemma ebind_Inr_id: "ebind m (\<lambda>b. Inr b) = m"
  by (cases m) (simp_all add: ebind_def)

lemma eseq_filter:
  "(\<And>x. \<not> P x \<Longrightarrow> f x = Inr []) \<Longrightarrow> eseq f xs = eseq f (filter P xs)"
proof (induction xs)
  case Nil
  show ?case by simp
next
  case (Cons x xs)
  show ?case
  proof (cases "P x")
    case True
    with Cons show ?thesis by simp
  next
    case False
    with Cons.prems have "f x = Inr []" by simp
    then have "eseq f (x # xs) = eseq f xs" by (simp add: ebind_def ebind_Inr_id [unfolded ebind_def] split: sum.splits)
    with False Cons show ?thesis by simp
  qed
qed

lemma jsonld_match_invalid: "json_loads R t = None \<Longrightarrow> jsonld_match R url t = Inr []"
  by (simp add: jsonld_match_def)

lemma eseq_all_Inr:
  "(\<forall>x\<in>set xs. \<exists>r. f x = Inr r) \<Longrightarrow> eseq f xs = Inr (concat (map (\<lambda>x. projr (f x)) xs))"
  by (induction xs) (auto simp: ebind_def)

lemma eseq_some_Inl:
  "\<exists>x\<in>set xs. \<exists>e. f x = Inl e \<Longrightarrow> \<exists>e. eseq f xs = Inl e"
proof (induction xs)
  case Nil
  then show ?case by simp
next
  case (Cons x xs)
  show ?case
  proof (cases "f x")
    case (Inl e)
    then show ?thesis by (simp add: ebind_def)
  next
    case (Inr a)
    with Cons.prems have "\<exists>x\<in>set xs. \<exists>e. f x = Inl e" by auto
    then obtain e where "eseq f xs = Inl e" using Cons.IH by blast
    with Inr show ?thesis by (simp add: ebind_def)
  qed
qed

lemma parse_jsonld_valid_blocks:
  "parse_jsonld R html url
     = eseq (jsonld_match R url)
         (filter (\<lambda>t. json_loads R t \<noteq> None) (JSONLD_RE_finditer (unicode R) html))"
  unfolding parse_jsonld_def
  by (rule eseq_filter) (simp add: jsonld_match_invalid)

text \<open>
  Claim C4 as stated fails on a page whose blocks all parse but one of which raises
  while it is normalised: the page below has a cut-short embedded-data block and two
  linked-data blocks that are valid JSON, the second with a relative \<open>url\<close>. The first
  block alone gives the record of the scenario, yet the page yields no record and
  \<open>ValidationError\<close> leaves \<open>_iter_list_page\<close>: only \<open>json.loads\<close> stands inside the \<open>try\<close>.
\<close>

theorem relative_url_counterexample:
  "NEXT_RE_search (unicode example_runtime) relative_url_page
     = Some (ustr ''{'' @ dq (ustr ''props'') @ ustr '': '') \<and>
   json_loads example_runtime (ustr ''{'' @ dq (ustr ''props'') @ ustr '': '') = None \<and>
   map (json_loads example_runtime) (JSONLD_RE_finditer (unicode example_runtime) relative_url_page)
     = [Some (PDict super_game_block), Some (PDict beta_block)] \<and>
   jsonld_match example_runtime example_url super_game_text = Inr [super_game_record example_url] \<and>
   iter_list_page example_runtime example_config (\<lambda>u. Inr relative_url_page) example_url
     = ([], Some ValidationError)"
  by code_simp

text \<open>
  Claim C4, as amended: when the embedded-data block of a page does not parse,
  \<open>_parse_next_data\<close> returns the empty list and raises nothing. The linked-data blocks
  that do not parse are passed over; when normalising none of the blocks that parse
  raises, the page yields the records of those blocks, in their order, and no exception;
  when normalising one of them raises, the page yields no record and the exception
  leaves \<open>_iter_list_page\<close>.
\<close>

theorem malformed_blocks_skipped:
  "NEXT_RE_search (unicode R) html = Some m \<and> json_loads R m = None \<longrightarrow>
     parse_next_data R cfg html url = Inr [] \<and>
     ((\<forall>t \<in> set (JSONLD_RE_finditer (unicode R) html).
          json_loads R t \<noteq> None \<longrightarrow> (\<exists>rs. jsonld_match R url t = Inr rs)) \<longrightarrow>
        iter_list_page R cfg (\<lambda>u. Inr html) url
          = (concat (map (\<lambda>t. projr (jsonld_match R url t))
                       (filter (\<lambda>t. json_loads R t \<noteq> None)
                          (JSONLD_RE_finditer (unicode R) html))), None)) \<and>
     ((\<exists>t \<in> set (JSONLD_RE_finditer (unicode R) html). \<exists>e. jsonld_match R url t = Inl e) \<longrightarrow>
        (\<exists>e. iter_list_page R cfg (\<lambda>u. Inr html) url = ([], Some e)))"
proof (intro impI conjI)
  assume a: "NEXT_RE_search (unicode R) html = Some m \<and> json_loads R m = None"
  then show n: "parse_next_data R cfg html url = Inr []"
    by (simp add: parse_next_data_def)
  {
    assume "\<forall>t \<in> set (JSONLD_RE_finditer (unicode R) html).
              json_loads R t \<noteq> None \<longrightarrow> (\<exists>rs. jsonld_match R url t = Inr rs)"
    then have "\<forall>t \<in> set (filter (\<lambda>t. json_loads R t \<noteq> None)
                             (JSONLD_RE_finditer (unicode R) html)).
                 \<exists>rs. jsonld_match R url t = Inr rs"
      by simp
    then have "parse_jsonld R html url
        = Inr (concat (map (\<lambda>t. projr (jsonld_match R url t))
                         (filter (\<lambda>t. json_loads R t \<noteq> None)
                            (JSONLD_RE_finditer (unicode R) html))))"
      unfolding parse_jsonld_valid_blocks by (rule eseq_all_Inr)
    with n show "iter_list_page R cfg (\<lambda>u. Inr html) url
          = (concat (map (\<lambda>t. projr (jsonld_match R url t))
                       (filter (\<lambda>t. json_loads R t \<noteq> None)
                          (JSONLD_RE_finditer (unicode R) html))), None)"
      by (simp add: iter_list_page_def)
  }
  {
    assume "\<exists>t \<in> set (JSONLD_RE_finditer (unicode R) html). \<exists>e. jsonld_match R url t = Inl e"
    then have "\<exists>e. parse_jsonld R html url = Inl e"
      unfolding parse_jsonld_def by (rule eseq_some_Inl)
    with n show "\<exists>e. iter_list_page R cfg (\<lambda>u. Inr html) url = ([], Some e)"
      by (auto simp: iter_list_page_def)
  }
qed

theorem malformed_blocks_skipped_witness:
  "NEXT_RE_search (unicode example_runtime) broken_page
     = Some (ustr ''{'' @ dq (ustr ''props'') @ ustr '': '') \<and>
   json_loads example_runtime (ustr ''{'' @ dq (ustr ''props'') @ ustr '': '') = None \<and>
   JSONLD_RE_finditer (unicode example_runtime) broken_page
     = [ustr ''{'' @ dq (ustr ''@type''), super_game_text] \<and>
   json_loads example_runtime (ustr ''{'' @ dq (ustr ''@type'')) = None \<and>
   jsonld_match example_runtime example_url super_game_text = Inr [super_game_record example_url] \<and>
   parse_next_data example_runtime example_config broken_page example_url = Inr [] \<and>
   iter_list_page example_runtime example_config (\<lambda>u. Inr broken_page) example_url
     = ([super_game_record example_url], None) \<and>
   (\<exists>t \<in> set (JSONLD_RE_finditer (unicode example_runtime) relative_url_page).
      \<exists>e. jsonld_match example_runtime example_url t = Inl e) \<and>
   (\<exists>e. iter_list_page example_runtime example_config (\<lambda>u. Inr relative_url_page) example_url
           = ([], Some e))"
proof -
  have a: "NEXT_RE_search (unicode example_runtime) broken_page
     = Some (ustr ''{'' @ dq (ustr ''props'') @ ustr '': '')"
    by code_simp
  have b: "json_loads example_runtime (ustr ''{'' @ dq (ustr ''props'') @ ustr '': '') = None"
    by code_simp
  have c: "JSONLD_RE_finditer (unicode example_runtime) broken_page
     = [ustr ''{'' @ dq (ustr ''@type''), super_game_text]"
    by code_simp
  have d: "json_loads example_runtime (ustr ''{'' @ dq (ustr ''@type'')) = None"
    by code_simp
  have e: "json_loads example_runtime super_game_text = Some (PDict super_game_block)"
    by code_simp
  have f: "jsonld_match example_runtime example_url super_game_text
             = Inr [super_game_record example_url]"
    by code_simp
  have h: "\<forall>t \<in> set (JSONLD_RE_finditer (unicode example_runtime) broken_page).
             json_loads example_runtime t \<noteq> None
               \<longrightarrow> (\<exists>rs. jsonld_match example_runtime example_url t = Inr rs)"
    by (simp add: c d f)
  from a b h malformed_blocks_skipped [of example_runtime broken_page
      "ustr ''{'' @ dq (ustr ''props'') @ ustr '': ''" example_config example_url]
  have n: "parse_next_data example_runtime example_config broken_page example_url = Inr []"
    and p: "iter_list_page example_runtime example_config (\<lambda>u. Inr broken_page) example_url
          = (concat (map (\<lambda>t. projr (jsonld_match example_runtime example_url t))
                       (filter (\<lambda>t. json_loads example_runtime t \<noteq> None)
                          (JSONLD_RE_finditer (unicode example_runtime) broken_page))), None)"
    by blast+
  from p have q: "iter_list_page example_runtime example_config (\<lambda>u. Inr broken_page) example_url
     = ([super_game_record example_url], None)"
    by (simp add: c d e f)
  have a': "NEXT_RE_search (unicode example_runtime) relative_url_page
     = Some (ustr ''{'' @ dq (ustr ''props'') @ ustr '': '')"
    by code_simp
  have c': "JSONLD_RE_finditer (unicode example_runtime) relative_url_page
     = [super_game_text, beta_text]"
    by code_simp
  have g': "jsonld_match example_runtime example_url beta_text = Inl ValidationError"
    by code_simp
  have x: "\<exists>t \<in> set (JSONLD_RE_finditer (unicode example_runtime) relative_url_page).
             \<exists>e. jsonld_match example_runtime example_url t = Inl e"
    by (simp add: c' g')
  from a' b x malformed_blocks_skipped [of example_runtime relative_url_page
      "ustr ''{'' @ dq (ustr ''props'') @ ustr '': ''" example_config example_url]
  have y: "\<exists>e. iter_list_page example_runtime example_config (\<lambda>u. Inr relative_url_page)
                 example_url = ([], Some e)"
    by blast
  from a b c d f n q x y show ?thesis by blast
qed

section \<open>Pagination of the search API\<close>

lemma iter_search_api_stop:
  "page_count R cfg f p = Some n \<Longrightarrow> int n < ps \<Longrightarrow>
   iter_search_api R cfg f ps p = Some (page_records R cfg f p, [p], None)"
  by (subst iter_search_api.simps)
     (auto simp: page_count_def page_records_def Let_def split: sum.splits if_splits)

lemma iter_search_api_continue:
  "page_count R cfg f p = Some n \<Longrightarrow> ps \<le> int n \<Longrightarrow>
   iter_search_api R cfg f ps p
     = Option.bind (iter_search_api R cfg f ps (Suc p))
         (\<lambda>more. Some (page_records R cfg f p @ fst more, p # fst (snd more), snd (snd more)))"
  by (subst iter_search_api.simps)
     (auto simp: page_count_def page_records_def Let_def split: sum.splits if_splits)

lemma iter_search_api_upto:
  "k - s = d \<Longrightarrow> s \<le> k \<Longrightarrow>
   (\<forall>p. s \<le> p \<and> p < k \<longrightarrow> (\<exists>n. page_count R cfg f p = Some n \<and> ps \<le> int n)) \<Longrightarrow>
   page_count R cfg f k = Some n \<Longrightarrow> int n < ps \<Longrightarrow>
   iter_search_api R cfg f ps s
     = Some (concat (map (page_records R cfg f) [s..<Suc k]), [s..<Suc k], None)"
proof (induction d arbitrary: s)
  case 0
  then have "s = k" by simp
  with 0 show ?case by (simp add: iter_search_api_stop)
next
  case (Suc d)
  then have lt: "s < k" by simp
  with Suc.prems obtain n0 where n0: "page_count R cfg f s = Some n0" "ps \<le> int n0" by blast
  from Suc.prems lt have "iter_search_api R cfg f ps (Suc s)
     = Some (concat (map (page_records R cfg f) [Suc s..<Suc k]), [Suc s..<Suc k], None)"
    by (intro Suc.IH) auto
  moreover from lt have "[s..<Suc k] = s # [Suc s..<Suc k]" by (simp add: upt_conv_Cons)
  ultimately show ?case using n0 by (simp add: iter_search_api_continue)
qed

lemma length_normalize_page: "length (fst (normalize_page R cfg items)) \<le> length items"
  by (induction items) (auto simp: opt_list_def Let_def split: sum.splits option.splits)

lemma two_item_page:
  "length (extract_items_from_api two_item_response) = 2 \<and>
   snd (normalize_page example_runtime example_config (extract_items_from_api two_item_response)) = None \<and>
   length (fst (normalize_page example_runtime example_config (extract_items_from_api two_item_response))) = 1"
  by code_simp

lemma full_page:
  "snd (normalize_page example_runtime example_config (extract_items_from_api full_response)) = None \<and>
   length (fst (normalize_page example_runtime example_config (extract_items_from_api full_response))) = 2"
  by code_simp

text \<open>
  Claim C2 as stated fails on a page that holds as many raw items as the page size, one
  of which gives no record: with page size 2 and a page of two raw items, the second
  without a title, page 0 is the only page fetched.
\<close>

theorem pagination_raw_items_counterexample:
  "length (extract_items_from_api two_item_response) = 2 \<and>
   map_option (\<lambda>res. fst (snd res))
     (iter_search_api example_runtime example_config (\<lambda>p. Inr two_item_response) 2 0) = Some [0]"
proof -
  have "page_count example_runtime example_config (\<lambda>p. Inr two_item_response) 0 = Some 1"
    using two_item_page by (simp add: page_count_def Let_def)
  then have "iter_search_api example_runtime example_config (\<lambda>p. Inr two_item_response) 2 0
    = Some (page_records example_runtime example_config (\<lambda>p. Inr two_item_response) 0, [0], None)"
    by (rule iter_search_api_stop) simp
  with two_item_page show ?thesis by simp
qed

text \<open>
  Claim C2, as amended: the count that decides is that of the records which the items of
  the page give. When page \<open>k\<close> is the first page from \<open>s\<close> on with fewer records than the
  page size, each page in front of it having at least that many, and no request or item
  raises up to \<open>k\<close>, then the loop returns, having fetched the pages \<open>s\<close> to \<open>k\<close> and no other;
  and a page with fewer raw items than the page size has fewer records.
\<close>

theorem pagination_stops_at_short_page:
  "(s \<le> k \<and>
    (\<forall>p. s \<le> p \<and> p < k \<longrightarrow> (\<exists>n. page_count R cfg f p = Some n \<and> ps \<le> int n)) \<and>
    (\<exists>n. page_count R cfg f k = Some n \<and> int n < ps) \<longrightarrow>
    iter_search_api R cfg f ps s
      = Some (concat (map (page_records R cfg f) [s..<Suc k]), [s..<Suc k], None)) \<and>
   (f p = Inr js \<and> int (length (extract_items_from_api js)) < ps \<and> page_count R cfg f p = Some n
      \<longrightarrow> int n < ps)"
proof (intro conjI impI)
  assume a: "s \<le> k \<and>
    (\<forall>p. s \<le> p \<and> p < k \<longrightarrow> (\<exists>n. page_count R cfg f p = Some n \<and> ps \<le> int n)) \<and>
    (\<exists>n. page_count R cfg f k = Some n \<and> int n < ps)"
  then obtain n' where "page_count R cfg f k = Some n'" "int n' < ps" by blast
  with a show "iter_search_api R cfg f ps s
      = Some (concat (map (page_records R cfg f) [s..<Suc k]), [s..<Suc k], None)"
    by (intro iter_search_api_upto [where d = "k - s" and n = n']) auto
next
  assume a: "f p = Inr js \<and> int (length (extract_items_from_api js)) < ps \<and>
             page_count R cfg f p = Some n"
  then have "n = length (fst (normalize_page R cfg (extract_items_from_api js)))"
    by (auto simp: page_count_def Let_def split: if_splits)
  with length_normalize_page [of R cfg "extract_items_from_api js"] a show "int n < ps"
    by linarith
qed

theorem pagination_stops_at_short_page_witness:
  "(0::nat) \<le> 1 \<and>
   page_count example_runtime example_config example_fetch_page 0 = Some 2 \<and>
   page_count example_runtime example_config example_fetch_page 1 = Some 1 \<and>
   map_option (\<lambda>res. fst (snd res))
     (iter_search_api example_runtime example_config example_fetch_page 2 0) = Some [0, 1]"
proof -
  have p0: "page_count example_runtime example_config example_fetch_page 0 = Some 2"
    using full_page by (simp add: page_count_def example_fetch_page_def Let_def)
  have p1: "page_count example_runtime example_config example_fetch_page 1 = Some 1"
    using two_item_page by (simp add: page_count_def example_fetch_page_def Let_def)
  have h: "\<forall>p. 0 \<le> p \<and> p < 1 \<longrightarrow>
      (\<exists>n. page_count example_runtime example_config example_fetch_page p = Some n \<and> 2 \<le> int n)"
    using p0 by auto
  have e: "\<exists>n. page_count example_runtime example_config example_fetch_page 1 = Some n \<and> int n < 2"
    using p1 by auto
  from h e pagination_stops_at_short_page [of 0 1 example_runtime example_config example_fetch_page 2]
  have "iter_search_api example_runtime example_config example_fetch_page 2 0
      = Some (concat (map (page_records example_runtime example_config example_fetch_page) [0..<Suc 1]),
              [0..<Suc 1], None)"
    by blast
  then have "map_option (\<lambda>res. fst (snd res))
     (iter_search_api example_runtime example_config example_fetch_page 2 0) = Some [0..<Suc 1]"
    by simp
  moreover have "[0..<Suc 1] = [0, 1::nat]" by (simp add: upt_conv_Cons)
  ultimately show ?thesis using p0 p1 by simp
qed


section \<open>The end-to-end scenario\<close>

lemma ustr_eq_Nil: "ustr s = [] \<longleftrightarrow> s = []"
  by (simp add: ustr_def)

lemma super_game_lookups:
  "dict_get super_game_block (ustr ''name'') = PStr super_game_title"
  "dict_get super_game_block (ustr ''image'') = PNone"
  "dict_get super_game_block (ustr ''offers'') = PDict super_game_offers"
  "dict_get super_game_block (ustr ''url'') = PNone"
  "dict_get super_game_block (ustr ''sku'') = PNone"
  "dict_get super_game_block (ustr ''productID'') = PNone"
  "dict_get super_game_block (ustr ''mpn'') = PNone"
  "dict_get_default super_game_block (ustr ''@type'') (PStr []) = PStr (ustr ''VideoGame'')"
  "dict_has super_game_block (ustr ''@graph'') = False"
  "dict_get super_game_offers (ustr ''priceCurrency'') = PStr (ustr ''USD'')"
  "dict_get super_game_offers (ustr ''price'') = PStr (ustr ''29.99'')"
  "dict_has super_game_offers (ustr ''price'') = True"
  by code_simp+

lemma super_game_strings:
  "super_game_title \<noteq> []"
  "super_game_offers \<noteq> []"
  "strip_edition_noise ucd_basic (clean_title ucd_basic super_game_title) = ustr ''Super Game:''"
  "price_to_string ucd_basic (Some float_29_99) (Some (ustr ''USD'')) None = ustr ''$29.99''"
  "price_nonempty ucd_basic (ustr ''$29.99'') = ustr ''$29.99''"
  "GameRecord_platforms_clean ucd_basic [ustr ''Switch''] = [ustr ''Switch'']"
  "str_lower ucd_basic (ustr ''VideoGame'') = ustr ''videogame''"
  by code_simp+

lemma super_game_normalized:
  assumes "unicode R = ucd_basic"
    and "float_of_str R (ustr ''29.99'') = Some float_29_99"
    and "http_url R nintendo_placeholder = Some nintendo_placeholder"
    and "http_url R url = Some url'"
  shows "normalize_jsonld_item R super_game_block url = Inr (Some (super_game_record url'))"
  using assms
  by (simp add: normalize_jsonld_item_def clean_title_any_def call_price_to_string_def
      GameRecord_new_def super_game_record_def super_game_lookups super_game_strings
      py_or_def py_str_def py_float_def ebind_def stores_def rating_lower_def ustr_eq_Nil
      Let_def)

lemma super_game_object:
  assumes "unicode R = ucd_basic"
    and "float_of_str R (ustr ''29.99'') = Some float_29_99"
    and "http_url R nintendo_placeholder = Some nintendo_placeholder"
    and "http_url R url = Some url'"
  shows "jsonld_object R url (PDict super_game_block) = Inr [super_game_record url']"
  using assms(1) super_game_normalized [OF assms]
  by (simp add: jsonld_object_def super_game_lookups super_game_strings py_str_def
      product_types_def ebind_def opt_list_def Let_def)

text \<open>
  Claim C1 as stated fails on the name: the page with the one \<open>VideoGame\<close> block gives
  one record, with the price \<open>$29.99\<close> and the placeholder image, but its name is
  \<open>Super Game:\<close> with the colon. The edition words are deleted and the final \<open>strip\<close>
  takes spaces and dashes off the ends, not a colon.
\<close>

theorem super_game_name_counterexample:
  "JSONLD_RE_finditer ucd_basic super_game_page = [super_game_text] \<and>
   json_loads example_runtime super_game_text = Some (PDict super_game_block) \<and>
   map name (fst (iter_list_page example_runtime example_config (\<lambda>u. Inr super_game_page)
                    example_url)) = [ustr ''Super Game:''] \<and>
   ustr ''Super Game:'' \<noteq> ustr ''Super Game''"
  by code_simp

text \<open>
  Claim C1, as amended: a listing page whose one linked-data block decodes to the
  \<open>VideoGame\<close> object of the scenario, and whose embedded-data sub-parser finds nothing,
  yields exactly one record; its name is \<open>Super Game:\<close>, its price is \<open>$29.99\<close> and its
  image is the placeholder of the store.
\<close>

theorem super_game_scenario:
  assumes "unicode R = ucd_basic"
    and "get_text url = Inr html"
    and "parse_next_data R cfg html url = Inr []"
    and "JSONLD_RE_finditer (unicode R) html = [m]"
    and "json_loads R m = Some (PDict super_game_block)"
    and "float_of_str R (ustr ''29.99'') = Some float_29_99"
    and "http_url R nintendo_placeholder = Some nintendo_placeholder"
    and "http_url R url = Some url'"
  shows "iter_list_page R cfg get_text url = ([super_game_record url'], None) \<and>
         name (super_game_record url') = ustr ''Super Game:'' \<and>
         price (super_game_record url') = ustr ''$29.99'' \<and>
         image (super_game_record url') = nintendo_placeholder"
proof -
  have "jsonld_object R url (PDict super_game_block) = Inr [super_game_record url']"
    using assms(1,6,7,8) by (rule super_game_object)
  with assms(5) have "jsonld_match R url m = Inr [super_game_record url']"
    by (simp add: jsonld_match_def ebind_def)
  with assms(4) have "parse_jsonld R html url = Inr [super_game_record url']"
    by (simp add: parse_jsonld_def ebind_def)
  with assms(2,3) show ?thesis
    by (simp add: iter_list_page_def super_game_record_def)
qed

theorem super_game_scenario_witness:
  "unicode example_runtime = ucd_basic \<and>
   parse_next_data example_runtime example_config super_game_page example_url = Inr [] \<and>
   JSONLD_RE_finditer (unicode example_runtime) super_game_page = [super_game_text] \<and>
   json_loads example_runtime super_game_text = Some (PDict super_game_block) \<and>
   float_of_str example_runtime (ustr ''29.99'') = Some float_29_99 \<and>
   http_url example_runtime nintendo_placeholder = Some nintendo_placeholder \<and>
   http_url example_runtime example_url = Some example_url \<and>
   iter_list_page example_runtime example_config (\<lambda>u. Inr super_game_page) example_url
     = ([super_game_record example_url], None)"
proof -
  have a: "unicode example_runtime = ucd_basic" by (simp add: example_runtime_def)
  have b: "(\<lambda>u. Inr super_game_page) example_url = (Inr super_game_page :: pyerror + pystr)"
    by simp
  have c: "parse_next_data example_runtime example_config super_game_page example_url = Inr []"
    by code_simp
  have d: "JSONLD_RE_finditer (unicode example_runtime) super_game_page = [super_game_text]"
    by code_simp
  have e: "json_loads example_runtime super_game_text = Some (PDict super_game_block)"
    by code_simp
  have f: "float_of_str example_runtime (ustr ''29.99'') = Some float_29_99" by code_simp
  have g: "http_url example_runtime nintendo_placeholder = Some nintendo_placeholder"
    by code_simp
  have h: "http_url example_runtime example_url = Some example_url" by code_simp
  from super_game_scenario [OF a b c d e f g h] a c d e f g h show ?thesis by simp
qed


end
